theory Spec2Isabelle
  imports Main "HOL-Library.Word"
begin

section \<open>The interface-bound connector of tundialer.c\<close>

text \<open>
  The native module exports one function, \<open>Connect\<close>: it reads three arguments handed over
  by the JavaScript host (interface name, IPv4 address, port), creates a TCP socket, binds it
  to the named interface with \<open>SO_BINDTODEVICE\<close>, switches on \<open>TCP_NODELAY\<close>, parses the
  address, connects, and returns the descriptor; every failure throws a JavaScript error.

  The function is modelled by explicit state passing over the state of the calling process
  (its descriptor table, \<open>errno\<close>, and the log of the calls it has made). What the operating
  system answers to a call is not decided by the program: it is a parameter of the model.
\<close>

subsection \<open>Values of the host runtime\<close>

datatype napi_status =
    napi_ok
  | napi_invalid_arg
  | napi_string_expected
  | napi_number_expected
  | napi_generic_failure

text \<open>
  A JavaScript value as far as \<open>Connect\<close> looks at it. A string is its sequence of code
  points; \<open>JsNumber n\<close> is a Number whose value is the integer \<open>n\<close> (fractional and
  non-finite Numbers are not represented); \<open>JsOther\<close> stands for every other value.
\<close>

datatype napi_value =
    JsUndefined
  | JsString "nat list"
  | JsNumber int
  | JsOther

fun is_string :: "napi_value \<Rightarrow> bool" where
  "is_string (JsString _) = True"
| "is_string _ = False"

text \<open>The error made by \<open>napi_throw_error(env, code, msg)\<close>; \<open>code\<close> may be \<open>NULL\<close>.\<close>

record js_error =
  err_code :: "string option"
  err_msg :: string

definition napi_throw_error :: "string option \<Rightarrow> string \<Rightarrow> js_error" where
  "napi_throw_error c m = \<lparr>err_code = c, err_msg = m\<rparr>"

text \<open>
  The statuses of the two runtime calls whose outcome does not depend on the arguments of
  \<open>Connect\<close>: \<open>napi_get_cb_info\<close> and \<open>napi_create_int32\<close>.
\<close>

record napi_env =
  get_cb_info_status :: napi_status
  create_int32_status :: napi_status

subsection \<open>Copying a JavaScript string into a C buffer\<close>

type_synonym byte = "8 word"

text \<open>
  The UTF-8 encoding of one code point. A lone surrogate is written as U+FFFD, as the
  runtime does.
\<close>

definition utf8_encode :: "nat \<Rightarrow> string" where
  "utf8_encode c =
     (if c < 0x80 then [char_of c]
      else if c < 0x800 then [char_of (0xC0 + c div 64), char_of (0x80 + c mod 64)]
      else if 0xD800 \<le> c \<and> c < 0xE000 then [char_of (0xEF::nat), char_of (0xBF::nat), char_of (0xBD::nat)]
      else if c < 0x10000 then
        [char_of (0xE0 + c div 4096), char_of (0x80 + (c div 64) mod 64), char_of (0x80 + c mod 64)]
      else
        [char_of (0xF0 + c div 262144), char_of (0x80 + (c div 4096) mod 64),
         char_of (0x80 + (c div 64) mod 64), char_of (0x80 + c mod 64)])"

definition utf8 :: "nat list \<Rightarrow> string" where
  "utf8 cs = concat (map utf8_encode cs)"

text \<open>
  Writing a string into \<open>cap\<close> bytes: whole characters only, stopping at the first one
  that does not fit.
\<close>

fun write_utf8 :: "nat \<Rightarrow> nat list \<Rightarrow> string" where
  "write_utf8 cap [] = []"
| "write_utf8 cap (c # cs) =
     (let e = utf8_encode c
      in if length e \<le> cap then e @ write_utf8 (cap - length e) cs else [])"

text \<open>
  \<open>napi_get_value_string_utf8(env, value, buf, bufsize, &len)\<close>: a value that is not a
  string gives \<open>napi_string_expected\<close>; a string is copied into the buffer, cut to fit
  into \<open>bufsize - 1\<close> bytes when it is longer, and terminated by a NUL byte. The result
  is the status and the bytes in front of that terminator.
\<close>

definition napi_get_value_string_utf8 :: "napi_value \<Rightarrow> nat \<Rightarrow> napi_status \<times> string" where
  "napi_get_value_string_utf8 v bufsize =
     (case v of
        JsString cs \<Rightarrow> (napi_ok, write_utf8 (bufsize - 1) cs)
      | _ \<Rightarrow> (napi_string_expected, []))"

text \<open>
  \<open>napi_get_value_int32\<close>: a value that is not a Number gives \<open>napi_number_expected\<close>;
  an integer outside the 32-bit range is cut to its low 32 bits.
\<close>

definition napi_get_value_int32 :: "napi_value \<Rightarrow> napi_status \<times> 32 word" where
  "napi_get_value_int32 v =
     (case v of
        JsNumber n \<Rightarrow> (napi_ok, word_of_int n)
      | _ \<Rightarrow> (napi_number_expected, 0))"

text \<open>A buffer read as a C string ends at its first NUL byte.\<close>

definition c_str :: "string \<Rightarrow> string" where
  "c_str buf = takeWhile (\<lambda>c. c \<noteq> CHR 0x00) buf"

subsection \<open>Platform constants and library functions\<close>

definition IFNAMSIZ :: nat where
  "IFNAMSIZ = 16"

definition INET_ADDRSTRLEN :: nat where
  "INET_ADDRSTRLEN = 16"

definition AF_INET :: nat where
  "AF_INET = 2"

text \<open>
  A \<open>struct sockaddr_in\<close>. Port and address are kept in network byte order; they are
  recorded as the bytes in memory, first byte first.
\<close>

record sockaddr_in =
  sin_family :: nat
  sin_port :: "byte list"
  sin_addr :: "byte list"

text \<open>\<open>htons\<close>: the two bytes of a 16-bit value, high byte first.\<close>

definition htons :: "16 word \<Rightarrow> byte list" where
  "htons x = [word_of_nat (unat x div 256), word_of_nat (unat x mod 256)]"

text \<open>The port number that two bytes in network order denote.\<close>

definition ntohs :: "byte list \<Rightarrow> nat" where
  "ntohs bs = (case bs of [hi, lo] \<Rightarrow> 256 * unat hi + unat lo | _ \<Rightarrow> 0)"

text \<open>
  \<open>inet_pton(AF_INET, src, dst)\<close> accepts exactly \<open>ddd.ddd.ddd.ddd\<close>: four fields
  separated by dots, each a decimal number of one to three digits, at most 255, without a
  leading zero. \<open>None\<close> stands for every return value other than 1.
\<close>

definition is_digit :: "char \<Rightarrow> bool" where
  "is_digit c = (48 \<le> (of_char c :: nat) \<and> (of_char c :: nat) \<le> 57)"

definition decimal :: "string \<Rightarrow> nat" where
  "decimal s = foldl (\<lambda>v c. 10 * v + (of_char c - 48)) 0 s"

fun split_dots :: "string \<Rightarrow> string list" where
  "split_dots [] = [[]]"
| "split_dots (c # cs) =
     (if c = CHR ''.'' then [] # split_dots cs
      else (c # hd (split_dots cs)) # tl (split_dots cs))"

definition octet :: "string \<Rightarrow> byte option" where
  "octet s =
     (if s \<noteq> [] \<and> length s \<le> 3 \<and> list_all is_digit s
         \<and> \<not> (1 < length s \<and> hd s = CHR ''0'') \<and> decimal s \<le> 255
      then Some (word_of_nat (decimal s)) else None)"

definition inet_pton4 :: "string \<Rightarrow> byte list option" where
  "inet_pton4 src =
     (case map octet (split_dots src) of
        [Some a, Some b, Some c, Some d] \<Rightarrow> Some [a, b, c, d]
      | _ \<Rightarrow> None)"

subsection \<open>The process and the operating system\<close>

text \<open>The calls \<open>Connect\<close> makes, with their arguments; \<open>socket\<close> with the value it returned.\<close>

datatype call =
    Call_socket int
  | Call_bindtodevice int string
  | Call_nodelay int
  | Call_inet_pton string
  | Call_connect int sockaddr_in
  | Call_close int

record process =
  open_fds :: "int list"
  errno :: nat
  calls :: "call list"

text \<open>
  What the operating system answers: \<open>None\<close> is success, \<open>Some e\<close> is failure with
  \<open>errno = e\<close>. Binding depends on the device name, connecting on the destination.
\<close>

record os_replies =
  socket_reply :: "nat option"
  bindtodevice_reply :: "string \<Rightarrow> nat option"
  nodelay_reply :: "nat option"
  connect_reply :: "sockaddr_in \<Rightarrow> nat option"

text \<open>A new descriptor is the lowest number that is not open.\<close>

definition lowest_unused :: "int list \<Rightarrow> int" where
  "lowest_unused fds = hd (filter (\<lambda>n. n \<notin> set fds) (map int [0..<Suc (length fds)]))"

definition log_call :: "call \<Rightarrow> process \<Rightarrow> process" where
  "log_call c p = p\<lparr>calls := calls p @ [c]\<rparr>"

text \<open>The return value of a call that answers 0 or -1, and its effect on \<open>errno\<close>.\<close>

definition ret_of :: "nat option \<Rightarrow> int" where
  "ret_of r = (case r of None \<Rightarrow> 0 | Some e \<Rightarrow> - 1)"

definition set_errno :: "nat option \<Rightarrow> process \<Rightarrow> process" where
  "set_errno r p = (case r of None \<Rightarrow> p | Some e \<Rightarrow> p\<lparr>errno := e\<rparr>)"

definition sys_socket :: "os_replies \<Rightarrow> process \<Rightarrow> int \<times> process" where
  "sys_socket os p =
     (case socket_reply os of
        Some e \<Rightarrow> (- 1, log_call (Call_socket (- 1)) (p\<lparr>errno := e\<rparr>))
      | None \<Rightarrow>
          (let s = lowest_unused (open_fds p)
           in (s, log_call (Call_socket s) (p\<lparr>open_fds := s # open_fds p\<rparr>))))"

definition sys_bindtodevice :: "os_replies \<Rightarrow> int \<Rightarrow> string \<Rightarrow> process \<Rightarrow> int \<times> process" where
  "sys_bindtodevice os s name p =
     (ret_of (bindtodevice_reply os name),
      log_call (Call_bindtodevice s name) (set_errno (bindtodevice_reply os name) p))"

definition sys_nodelay :: "os_replies \<Rightarrow> int \<Rightarrow> process \<Rightarrow> int \<times> process" where
  "sys_nodelay os s p =
     (ret_of (nodelay_reply os), log_call (Call_nodelay s) (set_errno (nodelay_reply os) p))"

definition sys_connect :: "os_replies \<Rightarrow> int \<Rightarrow> sockaddr_in \<Rightarrow> process \<Rightarrow> int \<times> process" where
  "sys_connect os s a p =
     (ret_of (connect_reply os a), log_call (Call_connect s a) (set_errno (connect_reply os a) p))"

definition sys_close :: "int \<Rightarrow> process \<Rightarrow> process" where
  "sys_close s p = log_call (Call_close s) (p\<lparr>open_fds := removeAll s (open_fds p)\<rparr>)"

definition lib_inet_pton :: "string \<Rightarrow> process \<Rightarrow> byte list option \<times> process" where
  "lib_inet_pton src p = (inet_pton4 src, log_call (Call_inet_pton src) p)"

subsection \<open>Connect\<close>

text \<open>
  Lines 13 to 52: the three arguments are fetched and converted. Arguments the caller left
  out arrive as \<open>undefined\<close>; \<open>argc\<close> is the number the caller passed.
\<close>

definition get_args :: "napi_env \<Rightarrow> napi_value list \<Rightarrow> js_error + (string \<times> string \<times> 32 word)" where
  "get_args env cb =
     (if get_cb_info_status env \<noteq> napi_ok
      then Inl (napi_throw_error None ''Failed to parse arguments'')
      else
        let argc = length cb;
            args = take 3 cb @ replicate (3 - length cb) JsUndefined
        in if argc < 3
           then Inl (napi_throw_error None ''Usage: connect(iface, ip, port)'')
           else
             let (st0, iface) = napi_get_value_string_utf8 (args ! 0) IFNAMSIZ
             in if st0 \<noteq> napi_ok
                then Inl (napi_throw_error None ''Invalid iface argument'')
                else
                  let (st1, ip) = napi_get_value_string_utf8 (args ! 1) INET_ADDRSTRLEN
                  in if st1 \<noteq> napi_ok
                     then Inl (napi_throw_error None ''Invalid ip argument'')
                     else
                       let (st2, port) = napi_get_value_int32 (args ! 2)
                       in if st2 \<noteq> napi_ok
                          then Inl (napi_throw_error None ''Invalid port argument'')
                          else Inr (iface, ip, port))"

text \<open>Lines 54 to 93: the socket is created, bound, tuned and connected.\<close>

definition dial ::
  "napi_env \<Rightarrow> os_replies \<Rightarrow> string \<Rightarrow> string \<Rightarrow> 32 word \<Rightarrow> process \<Rightarrow> (js_error + napi_value) \<times> process" where
  "dial env os iface ip port p0 =
     (let (s, p1) = sys_socket os p0
      in if s < 0
         then (Inl (napi_throw_error (Some ''errno'') ''socket() failed''), p1)
         else
           let (r, p2) = sys_bindtodevice os s (c_str iface) p1
           in if r < 0
              then (Inl (napi_throw_error (Some ''errno'') ''setsockopt(SO_BINDTODEVICE) failed''),
                    sys_close s p2)
              else
                let (_, p3) = sys_nodelay os s p2;
                    a = \<lparr>sin_family = AF_INET, sin_port = htons (ucast port), sin_addr = [0, 0, 0, 0]\<rparr>;
                    (parsed, p4) = lib_inet_pton (c_str ip) p3
                in case parsed of
                     None \<Rightarrow>
                       (Inl (napi_throw_error None ''inet_pton() failed: invalid IP address''),
                        sys_close s p4)
                   | Some addr \<Rightarrow>
                       let (r, p5) = sys_connect os s (a\<lparr>sin_addr := addr\<rparr>) p4
                       in if r < 0
                          then (Inl (napi_throw_error (Some ''errno'') ''connect() failed''),
                                sys_close s p5)
                          else if create_int32_status env \<noteq> napi_ok
                          then (Inl (napi_throw_error None ''Failed to create return value''),
                                sys_close s p5)
                          else (Inr (JsNumber s), p5))"

definition Connect ::
  "napi_env \<Rightarrow> os_replies \<Rightarrow> napi_value list \<Rightarrow> process \<Rightarrow> (js_error + napi_value) \<times> process" where
  "Connect env os cb p =
     (case get_args env cb of
        Inl e \<Rightarrow> (Inl e, p)
      | Inr (iface, ip, port) \<Rightarrow> dial env os iface ip port p)"

subsection \<open>Observations on a call\<close>

text \<open>The descriptor the next \<open>socket()\<close> returns when it succeeds.\<close>

definition new_fd :: "process \<Rightarrow> int" where
  "new_fd p = lowest_unused (open_fds p)"

text \<open>\<open>errno\<close> after the no-delay step.\<close>

definition errno_nodelay :: "os_replies \<Rightarrow> process \<Rightarrow> nat" where
  "errno_nodelay os p = (case nodelay_reply os of None \<Rightarrow> errno p | Some e \<Rightarrow> e)"

text \<open>The address structure handed to \<open>connect\<close>.\<close>

definition sockaddr_of :: "32 word \<Rightarrow> byte list \<Rightarrow> sockaddr_in" where
  "sockaddr_of port addr = \<lparr>sin_family = AF_INET, sin_port = htons (ucast port), sin_addr = addr\<rparr>"

text \<open>The calls made between two states of the process.\<close>

definition new_calls :: "process \<Rightarrow> process \<Rightarrow> call list" where
  "new_calls p p' = drop (length (calls p)) (calls p')"

text \<open>The descriptors a sequence of calls created, and those it closed.\<close>

fun sockets_created :: "call list \<Rightarrow> int list" where
  "sockets_created [] = []"
| "sockets_created (Call_socket s # cs) =
     (if 0 \<le> s then s # sockets_created cs else sockets_created cs)"
| "sockets_created (_ # cs) = sockets_created cs"

fun sockets_closed :: "call list \<Rightarrow> int list" where
  "sockets_closed [] = []"
| "sockets_closed (Call_close s # cs) = s # sockets_closed cs"
| "sockets_closed (_ # cs) = sockets_closed cs"

text \<open>The steps of the algorithm, and the step a call belongs to.\<close>

datatype step = Socket | Bind | NoDelay | Parse | TcpConnect | Close

fun step_of :: "call \<Rightarrow> step" where
  "step_of (Call_socket _) = Socket"
| "step_of (Call_bindtodevice _ _) = Bind"
| "step_of (Call_nodelay _) = NoDelay"
| "step_of (Call_inet_pton _) = Parse"
| "step_of (Call_connect _ _) = TcpConnect"
| "step_of (Call_close _) = Close"

text \<open>
  The error kinds of the specification. The source has no such type: it throws errors
  that differ in their message, and the kind of an error is read off that message. The
  messages for a missing argument, a bad address or port value and a failed result
  conversion belong to no kind.
\<close>

datatype ConnectError =
    InvalidArgument
  | InvalidAddress
  | SocketCreateFailed
  | InterfaceBindFailed
  | ConnectFailed

definition error_kind :: "js_error \<Rightarrow> ConnectError option" where
  "error_kind e =
     (if err_msg e = ''Invalid iface argument'' then Some InvalidArgument
      else if err_msg e = ''inet_pton() failed: invalid IP address'' then Some InvalidAddress
      else if err_msg e = ''socket() failed'' then Some SocketCreateFailed
      else if err_msg e = ''setsockopt(SO_BINDTODEVICE) failed'' then Some InterfaceBindFailed
      else if err_msg e = ''connect() failed'' then Some ConnectFailed
      else None)"

subsection \<open>A concrete host\<close>

text \<open>
  A machine to run the model on: the interfaces \<open>lo\<close> and \<open>eth0\<close> exist (any other
  name gives \<open>ENODEV\<close>, 19), and the only listener is at 127.0.0.1, port 8080 (any other
  destination gives \<open>ECONNREFUSED\<close>, 111). The process has its three standard
  descriptors open.
\<close>

definition js :: "string \<Rightarrow> napi_value" where
  "js s = JsString (map of_char s)"

definition host_env :: napi_env where
  "host_env = \<lparr>get_cb_info_status = napi_ok, create_int32_status = napi_ok\<rparr>"

definition host_os :: os_replies where
  "host_os =
     \<lparr>socket_reply = None,
      bindtodevice_reply = (\<lambda>name. if name = ''lo'' \<or> name = ''eth0'' then None else Some 19),
      nodelay_reply = None,
      connect_reply =
        (\<lambda>a. if sin_addr a = [127, 0, 0, 1] \<and> ntohs (sin_port a) = 8080 then None else Some 111)\<rparr>"

definition host_proc :: process where
  "host_proc = \<lparr>open_fds = [0, 1, 2], errno = 0, calls = []\<rparr>"

text \<open>The same host, except that every \<open>connect\<close> fails with error number \<open>e\<close>.\<close>

definition failing_os :: "nat \<Rightarrow> os_replies" where
  "failing_os e = host_os\<lparr>connect_reply := \<lambda>_. Some e\<rparr>"

text \<open>
  The same host, except that setting \<open>TCP_NODELAY\<close> fails with \<open>EOPNOTSUPP\<close> (95).
\<close>

definition deaf_os :: os_replies where
  "deaf_os = host_os\<lparr>nodelay_reply := Some 95\<rparr>"

text \<open>The same host, except that its only listener is at 192.168.100.100, port 80.\<close>

definition lan_os :: os_replies where
  "lan_os = host_os\<lparr>connect_reply :=
     (\<lambda>a. if sin_addr a = [192, 168, 100, 100] \<and> ntohs (sin_port a) = 80 then None else Some 111)\<rparr>"

text \<open>The same host, except that \<open>socket()\<close> fails with \<open>EMFILE\<close> (24).\<close>

definition exhausted_os :: os_replies where
  "exhausted_os = host_os\<lparr>socket_reply := Some 24\<rparr>"

section \<open>Properties of the library functions\<close>

lemma lowest_unused_candidate:
  "lowest_unused fds \<in> set (filter (\<lambda>n. n \<notin> set fds) (map int [0..<Suc (length fds)]))"
proof -
  let ?cands = "map int [0..<Suc (length fds)]"
  have "\<not> set ?cands \<subseteq> set fds"
  proof
    assume sub: "set ?cands \<subseteq> set fds"
    have "distinct ?cands" by (auto simp: distinct_map inj_on_def)
    then have "card (set ?cands) = length ?cands" by (rule distinct_card)
    moreover have "card (set ?cands) \<le> card (set fds)" using sub by (simp add: card_mono)
    moreover have "card (set fds) \<le> length fds" by (rule card_length)
    ultimately show False by simp
  qed
  then have "filter (\<lambda>n. n \<notin> set fds) ?cands \<noteq> []"
    by (auto simp: filter_empty_conv)
  then show ?thesis
    unfolding lowest_unused_def by (rule hd_in_set)
qed

lemma lowest_unused_fresh: "lowest_unused fds \<notin> set fds"
  using lowest_unused_candidate [of fds] unfolding set_filter by blast

lemma lowest_unused_nonneg: "0 \<le> lowest_unused fds"
proof -
  from lowest_unused_candidate [of fds]
  have "lowest_unused fds \<in> int ` set [0..<Suc (length fds)]"
    unfolding set_filter set_map by blast
  then obtain n where "lowest_unused fds = int n" by blast
  then show ?thesis by simp
qed

lemma utf8_encode_nonempty: "0 < length (utf8_encode c)"
  by (simp add: utf8_encode_def)

lemma write_utf8_take_gen: "m \<le> k \<Longrightarrow> write_utf8 m (take k cs) = write_utf8 m cs"
proof (induction cs arbitrary: m k)
  case Nil
  then show ?case by simp
next
  case (Cons c cs)
  show ?case
  proof (cases k)
    case 0
    with Cons.prems have "m = 0" by simp
    with 0 utf8_encode_nonempty [of c] show ?thesis by (simp add: Let_def)
  next
    case (Suc k')
    have "m - length (utf8_encode c) \<le> k'"
      using Cons.prems Suc utf8_encode_nonempty [of c] by arith
    then show ?thesis using Suc Cons.IH by (simp add: Let_def)
  qed
qed

lemma write_utf8_take: "write_utf8 n (take n cs) = write_utf8 n cs"
  by (rule write_utf8_take_gen) simp

lemma write_utf8_fits: "length (utf8 cs) \<le> n \<Longrightarrow> write_utf8 n cs = utf8 cs"
  by (induction cs arbitrary: n) (auto simp: utf8_def Let_def)

lemma split_dots_nonempty: "split_dots s \<noteq> []"
  by (cases s) auto

lemma split_dots_length:
  "length s + 1 = sum_list (map length (split_dots s)) + length (split_dots s)"
proof (induction s)
  case Nil
  then show ?case by simp
next
  case (Cons c cs)
  obtain q qs where q: "split_dots cs = q # qs"
    using split_dots_nonempty [of cs] by (cases "split_dots cs") auto
  with Cons show ?case by simp
qed

lemma split_dots_chars:
  "c \<in> set s \<Longrightarrow> c = CHR ''.'' \<or> (\<exists>q \<in> set (split_dots s). c \<in> set q)"
proof (induction s)
  case Nil
  then show ?case by simp
next
  case (Cons d ds)
  obtain q qs where q: "split_dots ds = q # qs"
    using split_dots_nonempty [of ds] by (cases "split_dots ds") auto
  with Cons show ?case by (auto split: if_splits)
qed

lemma octet_Some: "octet q = Some b \<Longrightarrow> length q \<le> 3 \<and> (\<forall>c \<in> set q. is_digit c)"
  by (auto simp: octet_def list_all_iff split: if_splits)

lemma inet_pton4_Some_fields:
  assumes "inet_pton4 src = Some addr"
  shows "\<exists>q1 q2 q3 q4. split_dots src = [q1, q2, q3, q4] \<and>
           octet q1 \<noteq> None \<and> octet q2 \<noteq> None \<and> octet q3 \<noteq> None \<and> octet q4 \<noteq> None"
  using assms
  by (auto simp: inet_pton4_def split: list.splits option.splits)

lemma inet_pton4_Some_length:
  assumes "inet_pton4 src = Some addr"
  shows "length src \<le> 15"
proof -
  from inet_pton4_Some_fields [OF assms] obtain q1 q2 q3 q4 where
    sp: "split_dots src = [q1, q2, q3, q4]" and
    o: "octet q1 \<noteq> None" "octet q2 \<noteq> None" "octet q3 \<noteq> None" "octet q4 \<noteq> None"
    by blast
  from o have "length q1 \<le> 3" "length q2 \<le> 3" "length q3 \<le> 3" "length q4 \<le> 3"
    using octet_Some by blast+
  with split_dots_length [of src] sp show ?thesis by simp
qed

lemma inet_pton4_Some_no_nul:
  assumes "inet_pton4 src = Some addr"
  shows "CHR 0x00 \<notin> set src"
proof
  assume nul: "CHR 0x00 \<in> set src"
  from inet_pton4_Some_fields [OF assms] obtain q1 q2 q3 q4 where
    sp: "split_dots src = [q1, q2, q3, q4]" and
    o: "octet q1 \<noteq> None" "octet q2 \<noteq> None" "octet q3 \<noteq> None" "octet q4 \<noteq> None"
    by blast
  from split_dots_chars [OF nul] sp obtain q where "q \<in> {q1, q2, q3, q4}" "CHR 0x00 \<in> set q"
    by auto
  with o have "is_digit (CHR 0x00)" using octet_Some by blast
  then show False by (simp add: is_digit_def)
qed

lemma c_str_id: "CHR 0x00 \<notin> set s \<Longrightarrow> c_str s = s"
  by (auto simp: c_str_def)

lemma ntohs_htons: "ntohs (htons x) = unat x"
proof -
  have "unat x < 65536" using unsigned_less [of x, where 'a = nat] by simp
  then have d: "unat x div 256 < 256" by simp
  have m: "unat x mod 256 < 256" by simp
  have "unat (word_of_nat (unat x div 256) :: byte) = unat x div 256"
    using d by (simp add: unat_of_nat)
  moreover have "unat (word_of_nat (unat x mod 256) :: byte) = unat x mod 256"
    by (simp add: unat_of_nat)
  ultimately show ?thesis by (simp add: htons_def ntohs_def)
qed

lemma port_of_int: "unat (ucast (word_of_int n :: 32 word) :: 16 word) = nat (n mod 65536)"
proof -
  have "unat (ucast (word_of_int n :: 32 word) :: 16 word)
      = take_bit 16 (unat (word_of_int n :: 32 word))"
    by (simp only: unsigned_ucast_eq len_bit0 len_num1 mult_numeral_left_semiring_numeral
        mult.right_neutral numeral_times_numeral num.simps semiring_norm)
  also have "unat (word_of_int n :: 32 word) = nat (take_bit 32 n)"
    by (simp add: unsigned_of_int)
  also have "take_bit 16 (nat (take_bit 32 n)) = nat (take_bit 16 (take_bit 32 n))"
    by (rule nat_take_bit_eq [symmetric]) simp
  also have "take_bit 16 (take_bit 32 n) = take_bit 16 n"
    by (simp add: take_bit_take_bit)
  also have "take_bit 16 n = n mod 65536"
    by (simp add: take_bit_eq_mod)
  finally show ?thesis .
qed

lemma target_port: "ntohs (sin_port (sockaddr_of (word_of_int n) addr)) = nat (n mod 65536)"
  by (simp only: sockaddr_of_def sockaddr_in.simps ntohs_htons port_of_int)

lemma utf8_encode_ascii: "(of_char c :: nat) < 128 \<Longrightarrow> utf8_encode (of_char c) = [c]"
  by (simp add: utf8_encode_def)

lemma write_utf8_ascii:
  "list_all (\<lambda>c. (of_char c :: nat) < 128) s \<Longrightarrow> write_utf8 n (map of_char s) = take n s"
proof (induction s arbitrary: n)
  case Nil
  then show ?case by simp
next
  case (Cons c s)
  then show ?case by (cases n) (simp_all add: utf8_encode_ascii)
qed

lemma utf8_ascii: "list_all (\<lambda>c. (of_char c :: nat) < 128) s \<Longrightarrow> utf8 (map of_char s) = s"
  by (induction s) (simp_all add: utf8_def utf8_encode_ascii)

lemma buffer_of_valid_prefix:
  assumes "inet_pton4 (utf8 (take 15 a)) = Some addr"
  shows "write_utf8 15 a = utf8 (take 15 a)" and "c_str (utf8 (take 15 a)) = utf8 (take 15 a)"
proof -
  from inet_pton4_Some_length [OF assms] have "write_utf8 15 (take 15 a) = utf8 (take 15 a)"
    by (rule write_utf8_fits)
  then show "write_utf8 15 a = utf8 (take 15 a)" by (simp only: write_utf8_take)
  from inet_pton4_Some_no_nul [OF assms] show "c_str (utf8 (take 15 a)) = utf8 (take 15 a)"
    by (rule c_str_id)
qed

section \<open>The paths through Connect\<close>

lemmas sys_defs = sys_socket_def sys_bindtodevice_def sys_nodelay_def sys_connect_def sys_close_def
  lib_inet_pton_def log_call_def ret_of_def set_errno_def

lemma removeAll_new_fd: "removeAll (new_fd p) (open_fds p) = open_fds p"
  by (simp add: new_fd_def lowest_unused_fresh)

lemma new_fd_not_neg: "\<not> new_fd p < 0"
  using lowest_unused_nonneg [of "open_fds p"] by (simp add: new_fd_def)

lemma dial_socket_fails:
  assumes "socket_reply os = Some e"
  shows "dial env os iface ip port p =
    (Inl (napi_throw_error (Some ''errno'') ''socket() failed''),
     p\<lparr>errno := e, calls := calls p @ [Call_socket (- 1)]\<rparr>)"
  using assms by (simp add: dial_def sys_defs)

lemma dial_bind_fails:
  assumes "socket_reply os = None" and "bindtodevice_reply os (c_str iface) = Some e"
  shows "dial env os iface ip port p =
    (Inl (napi_throw_error (Some ''errno'') ''setsockopt(SO_BINDTODEVICE) failed''),
     p\<lparr>errno := e,
       calls := calls p @ [Call_socket (new_fd p), Call_bindtodevice (new_fd p) (c_str iface),
                          Call_close (new_fd p)]\<rparr>)"
  using assms new_fd_not_neg [of p] removeAll_new_fd [of p]
  by (simp add: dial_def sys_defs Let_def new_fd_def)

lemma dial_parse_fails:
  assumes "socket_reply os = None" and "bindtodevice_reply os (c_str iface) = None"
    and "inet_pton4 (c_str ip) = None"
  shows "dial env os iface ip port p =
    (Inl (napi_throw_error None ''inet_pton() failed: invalid IP address''),
     p\<lparr>errno := errno_nodelay os p,
       calls := calls p @ [Call_socket (new_fd p), Call_bindtodevice (new_fd p) (c_str iface),
                          Call_nodelay (new_fd p), Call_inet_pton (c_str ip),
                          Call_close (new_fd p)]\<rparr>)"
  using assms new_fd_not_neg [of p] removeAll_new_fd [of p]
  by (simp add: dial_def sys_defs Let_def new_fd_def errno_nodelay_def split: option.splits)

lemma dial_connect_fails:
  assumes "socket_reply os = None" and "bindtodevice_reply os (c_str iface) = None"
    and "inet_pton4 (c_str ip) = Some addr"
    and "connect_reply os (sockaddr_of port addr) = Some e"
  shows "dial env os iface ip port p =
    (Inl (napi_throw_error (Some ''errno'') ''connect() failed''),
     p\<lparr>errno := e,
       calls := calls p @ [Call_socket (new_fd p), Call_bindtodevice (new_fd p) (c_str iface),
                          Call_nodelay (new_fd p), Call_inet_pton (c_str ip),
                          Call_connect (new_fd p) (sockaddr_of port addr),
                          Call_close (new_fd p)]\<rparr>)"
  using assms new_fd_not_neg [of p] removeAll_new_fd [of p]
  by (simp add: dial_def sys_defs Let_def new_fd_def sockaddr_of_def split: option.splits)

lemma dial_create_fails:
  assumes "socket_reply os = None" and "bindtodevice_reply os (c_str iface) = None"
    and "inet_pton4 (c_str ip) = Some addr"
    and "connect_reply os (sockaddr_of port addr) = None"
    and "create_int32_status env \<noteq> napi_ok"
  shows "dial env os iface ip port p =
    (Inl (napi_throw_error None ''Failed to create return value''),
     p\<lparr>errno := errno_nodelay os p,
       calls := calls p @ [Call_socket (new_fd p), Call_bindtodevice (new_fd p) (c_str iface),
                          Call_nodelay (new_fd p), Call_inet_pton (c_str ip),
                          Call_connect (new_fd p) (sockaddr_of port addr),
                          Call_close (new_fd p)]\<rparr>)"
  using assms new_fd_not_neg [of p] removeAll_new_fd [of p]
  by (simp add: dial_def sys_defs Let_def new_fd_def sockaddr_of_def errno_nodelay_def
      split: option.splits)

lemma dial_succeeds:
  assumes "socket_reply os = None" and "bindtodevice_reply os (c_str iface) = None"
    and "inet_pton4 (c_str ip) = Some addr"
    and "connect_reply os (sockaddr_of port addr) = None"
    and "create_int32_status env = napi_ok"
  shows "dial env os iface ip port p =
    (Inr (JsNumber (new_fd p)),
     p\<lparr>open_fds := new_fd p # open_fds p, errno := errno_nodelay os p,
       calls := calls p @ [Call_socket (new_fd p), Call_bindtodevice (new_fd p) (c_str iface),
                          Call_nodelay (new_fd p), Call_inet_pton (c_str ip),
                          Call_connect (new_fd p) (sockaddr_of port addr)]\<rparr>)"
  using assms new_fd_not_neg [of p]
  by (simp add: dial_def sys_defs Let_def new_fd_def sockaddr_of_def errno_nodelay_def
      split: option.splits)

lemma get_args_strings:
  assumes "get_cb_info_status env = napi_ok" and "3 \<le> length cb"
    and "cb ! 0 = JsString i" and "cb ! 1 = JsString a" and "cb ! 2 = JsNumber n"
  shows "get_args env cb = Inr (write_utf8 15 i, write_utf8 15 a, word_of_int n)"
  using assms
  by (simp add: get_args_def Let_def nth_append napi_get_value_string_utf8_def
      napi_get_value_int32_def IFNAMSIZ_def INET_ADDRSTRLEN_def)

lemma get_args_Inr:
  assumes "get_args env cb = Inr (iface, ip, port)"
  shows "\<exists>i a n. get_cb_info_status env = napi_ok \<and> 3 \<le> length cb \<and>
           cb ! 0 = JsString i \<and> cb ! 1 = JsString a \<and> cb ! 2 = JsNumber n \<and>
           iface = write_utf8 15 i \<and> ip = write_utf8 15 a \<and> port = word_of_int n"
  using assms
  by (auto simp: get_args_def Let_def nth_append napi_get_value_string_utf8_def
      napi_get_value_int32_def IFNAMSIZ_def INET_ADDRSTRLEN_def
      split: if_splits napi_value.splits)

lemma Connect_args_fail:
  "get_args env cb = Inl e \<Longrightarrow> Connect env os cb p = (Inl e, p)"
  by (simp add: Connect_def)

lemma Connect_args_ok:
  "get_args env cb = Inr (iface, ip, port) \<Longrightarrow> Connect env os cb p = dial env os iface ip port p"
  by (simp add: Connect_def)

lemma new_calls_append: "new_calls p (p\<lparr>errno := e, calls := calls p @ cs\<rparr>) = cs"
  by (simp add: new_calls_def)

lemma new_calls_append_fds:
  "new_calls p (p\<lparr>open_fds := fds, errno := e, calls := calls p @ cs\<rparr>) = cs"
  by (simp add: new_calls_def)

lemma new_calls_same: "new_calls p p = []"
  by (simp add: new_calls_def)

lemma Connect_cases [case_names args socket bind parse connect create ok]:
  obtains
    (args) e where "get_args env cb = Inl e" and "Connect env os cb p = (Inl e, p)"
  | (socket) iface ip port e where "get_args env cb = Inr (iface, ip, port)"
      and "socket_reply os = Some e"
      and "Connect env os cb p =
        (Inl (napi_throw_error (Some ''errno'') ''socket() failed''),
         p\<lparr>errno := e, calls := calls p @ [Call_socket (- 1)]\<rparr>)"
  | (bind) iface ip port e where "get_args env cb = Inr (iface, ip, port)"
      and "socket_reply os = None" and "bindtodevice_reply os (c_str iface) = Some e"
      and "Connect env os cb p =
        (Inl (napi_throw_error (Some ''errno'') ''setsockopt(SO_BINDTODEVICE) failed''),
         p\<lparr>errno := e,
           calls := calls p @ [Call_socket (new_fd p), Call_bindtodevice (new_fd p) (c_str iface),
                              Call_close (new_fd p)]\<rparr>)"
  | (parse) iface ip port where "get_args env cb = Inr (iface, ip, port)"
      and "socket_reply os = None" and "bindtodevice_reply os (c_str iface) = None"
      and "inet_pton4 (c_str ip) = None"
      and "Connect env os cb p =
        (Inl (napi_throw_error None ''inet_pton() failed: invalid IP address''),
         p\<lparr>errno := errno_nodelay os p,
           calls := calls p @ [Call_socket (new_fd p), Call_bindtodevice (new_fd p) (c_str iface),
                              Call_nodelay (new_fd p), Call_inet_pton (c_str ip),
                              Call_close (new_fd p)]\<rparr>)"
  | (connect) iface ip port addr e where "get_args env cb = Inr (iface, ip, port)"
      and "socket_reply os = None" and "bindtodevice_reply os (c_str iface) = None"
      and "inet_pton4 (c_str ip) = Some addr"
      and "connect_reply os (sockaddr_of port addr) = Some e"
      and "Connect env os cb p =
        (Inl (napi_throw_error (Some ''errno'') ''connect() failed''),
         p\<lparr>errno := e,
           calls := calls p @ [Call_socket (new_fd p), Call_bindtodevice (new_fd p) (c_str iface),
                              Call_nodelay (new_fd p), Call_inet_pton (c_str ip),
                              Call_connect (new_fd p) (sockaddr_of port addr),
                              Call_close (new_fd p)]\<rparr>)"
  | (create) iface ip port addr where "get_args env cb = Inr (iface, ip, port)"
      and "socket_reply os = None" and "bindtodevice_reply os (c_str iface) = None"
      and "inet_pton4 (c_str ip) = Some addr"
      and "connect_reply os (sockaddr_of port addr) = None"
      and "create_int32_status env \<noteq> napi_ok"
      and "Connect env os cb p =
        (Inl (napi_throw_error None ''Failed to create return value''),
         p\<lparr>errno := errno_nodelay os p,
           calls := calls p @ [Call_socket (new_fd p), Call_bindtodevice (new_fd p) (c_str iface),
                              Call_nodelay (new_fd p), Call_inet_pton (c_str ip),
                              Call_connect (new_fd p) (sockaddr_of port addr),
                              Call_close (new_fd p)]\<rparr>)"
  | (ok) iface ip port addr where "get_args env cb = Inr (iface, ip, port)"
      and "socket_reply os = None" and "bindtodevice_reply os (c_str iface) = None"
      and "inet_pton4 (c_str ip) = Some addr"
      and "connect_reply os (sockaddr_of port addr) = None"
      and "create_int32_status env = napi_ok"
      and "Connect env os cb p =
        (Inr (JsNumber (new_fd p)),
         p\<lparr>open_fds := new_fd p # open_fds p, errno := errno_nodelay os p,
           calls := calls p @ [Call_socket (new_fd p), Call_bindtodevice (new_fd p) (c_str iface),
                              Call_nodelay (new_fd p), Call_inet_pton (c_str ip),
                              Call_connect (new_fd p) (sockaddr_of port addr)]\<rparr>)"
proof (cases "get_args env cb")
  case (Inl e)
  then show ?thesis using args Connect_args_fail by blast
next
  case (Inr t)
  obtain iface ip port where t: "t = (iface, ip, port)" by (cases t) auto
  with Inr have ga: "get_args env cb = Inr (iface, ip, port)" by simp
  note C = Connect_args_ok [OF ga, of os p]
  show ?thesis
  proof (cases "socket_reply os")
    case (Some e)
    show ?thesis using socket [OF ga Some] C dial_socket_fails [OF Some] by simp
  next
    case sock: None
    show ?thesis
    proof (cases "bindtodevice_reply os (c_str iface)")
      case (Some e)
      show ?thesis using bind [OF ga sock Some] C dial_bind_fails [OF sock Some] by simp
    next
      case bnd: None
      show ?thesis
      proof (cases "inet_pton4 (c_str ip)")
        case None
        show ?thesis using parse [OF ga sock bnd None] C dial_parse_fails [OF sock bnd None] by simp
      next
        case (Some addr)
        note pt = Some
        show ?thesis
        proof (cases "connect_reply os (sockaddr_of port addr)")
          case (Some e)
          show ?thesis
            using connect [OF ga sock bnd pt Some] C dial_connect_fails [OF sock bnd pt Some] by simp
        next
          case cn: None
          show ?thesis
          proof (cases "create_int32_status env = napi_ok")
            case True
            show ?thesis using ok [OF ga sock bnd pt cn True] C dial_succeeds [OF sock bnd pt cn True] by simp
          next
            case False
            show ?thesis
              using create [OF ga sock bnd pt cn False] C dial_create_fails [OF sock bnd pt cn False] by simp
          qed
        qed
      qed
    qed
  qed
qed

lemma get_args_Inl_Inr:
  assumes "3 \<le> length cb"
  shows "get_args env cb =
     (if get_cb_info_status env \<noteq> napi_ok
      then Inl (napi_throw_error None ''Failed to parse arguments'')
      else if fst (napi_get_value_string_utf8 (cb ! 0) IFNAMSIZ) \<noteq> napi_ok
      then Inl (napi_throw_error None ''Invalid iface argument'')
      else if fst (napi_get_value_string_utf8 (cb ! 1) INET_ADDRSTRLEN) \<noteq> napi_ok
      then Inl (napi_throw_error None ''Invalid ip argument'')
      else if fst (napi_get_value_int32 (cb ! 2)) \<noteq> napi_ok
      then Inl (napi_throw_error None ''Invalid port argument'')
      else Inr (snd (napi_get_value_string_utf8 (cb ! 0) IFNAMSIZ),
                snd (napi_get_value_string_utf8 (cb ! 1) INET_ADDRSTRLEN),
                snd (napi_get_value_int32 (cb ! 2))))"
proof -
  have a0: "(take 3 cb @ replicate (3 - length cb) JsUndefined) ! 0 = cb ! 0"
    using assms by (simp add: nth_append)
  have a1: "(take 3 cb @ replicate (3 - length cb) JsUndefined) ! 1 = cb ! 1"
    using assms by (simp add: nth_append)
  have a2: "(take 3 cb @ replicate (3 - length cb) JsUndefined) ! 2 = cb ! 2"
    using assms by (simp add: nth_append)
  have l: "\<not> length cb < 3" using assms by simp
  show ?thesis
    unfolding get_args_def Let_def
    by (simp only: a0 a1 a2 l if_False split_def)
qed

lemma get_args_short:
  assumes "length cb < 3"
  shows "get_args env cb =
     (if get_cb_info_status env \<noteq> napi_ok
      then Inl (napi_throw_error None ''Failed to parse arguments'')
      else Inl (napi_throw_error None ''Usage: connect(iface, ip, port)''))"
  using assms by (simp add: get_args_def Let_def)

lemma get_args_iface_prefix:
  assumes "cb ! 0 = JsString name"
  shows "get_args env (cb[0 := JsString (take 15 name)]) = get_args env cb"
proof (cases "3 \<le> length cb")
  case True
  then have "3 \<le> length (cb[0 := JsString (take 15 name)])" by simp
  note u = get_args_Inl_Inr [OF this] get_args_Inl_Inr [OF True]
  from True have "cb \<noteq> []" by auto
  then show ?thesis unfolding u using assms
    by (simp add: napi_get_value_string_utf8_def IFNAMSIZ_def write_utf8_take)
next
  case False
  then show ?thesis by (simp add: get_args_short)
qed

lemma get_args_address_prefix:
  assumes "cb ! 1 = JsString a"
  shows "get_args env (cb[1 := JsString (take 15 a)]) = get_args env cb"
proof (cases "3 \<le> length cb")
  case True
  then have "3 \<le> length (cb[1 := JsString (take 15 a)])" by simp
  note u = get_args_Inl_Inr [OF this] get_args_Inl_Inr [OF True]
  show ?thesis unfolding u using True assms
    by (simp add: napi_get_value_string_utf8_def INET_ADDRSTRLEN_def write_utf8_take)
next
  case False
  then show ?thesis by (simp add: get_args_short)
qed

lemma error_kind_simps:
  "error_kind (napi_throw_error c ''Invalid iface argument'') = Some InvalidArgument"
  "error_kind (napi_throw_error c ''inet_pton() failed: invalid IP address'') = Some InvalidAddress"
  "error_kind (napi_throw_error c ''socket() failed'') = Some SocketCreateFailed"
  "error_kind (napi_throw_error c ''setsockopt(SO_BINDTODEVICE) failed'') = Some InterfaceBindFailed"
  "error_kind (napi_throw_error c ''connect() failed'') = Some ConnectFailed"
  by (simp_all add: error_kind_def napi_throw_error_def)

lemma get_args_not_string:
  assumes "get_cb_info_status env = napi_ok" and "3 \<le> length cb"
    and "\<not> is_string (cb ! 0)"
  shows "get_args env cb = Inl (napi_throw_error None ''Invalid iface argument'')"
proof -
  from assms(3) have "fst (napi_get_value_string_utf8 (cb ! 0) IFNAMSIZ) \<noteq> napi_ok"
    by (cases "cb ! 0") (simp_all add: napi_get_value_string_utf8_def)
  with assms(1) show ?thesis by (simp add: get_args_Inl_Inr [OF assms(2)])
qed


lemma nodelay_other_replies:
  "socket_reply (os\<lparr>nodelay_reply := r\<rparr>) = socket_reply os"
  "bindtodevice_reply (os\<lparr>nodelay_reply := r\<rparr>) = bindtodevice_reply os"
  "connect_reply (os\<lparr>nodelay_reply := r\<rparr>) = connect_reply os"
  by simp_all

lemma Connect_nodelay_irrelevant:
  "fst (Connect env (os\<lparr>nodelay_reply := r\<rparr>) cb p) = fst (Connect env os cb p)
   \<and> open_fds (snd (Connect env (os\<lparr>nodelay_reply := r\<rparr>) cb p)) = open_fds (snd (Connect env os cb p))
   \<and> calls (snd (Connect env (os\<lparr>nodelay_reply := r\<rparr>) cb p)) = calls (snd (Connect env os cb p))"
proof (cases rule: Connect_cases [of env cb os p])
  case (args e')
  then show ?thesis by (simp add: Connect_args_fail)
next
  case (socket iface ip port e')
  then show ?thesis
    by (simp add: Connect_args_ok dial_socket_fails nodelay_other_replies)
next
  case (bind iface ip port e')
  then show ?thesis
    by (simp add: Connect_args_ok dial_bind_fails nodelay_other_replies)
next
  case (parse iface ip port)
  then show ?thesis
    by (simp add: Connect_args_ok dial_parse_fails nodelay_other_replies)
next
  case (connect iface ip port addr e')
  then show ?thesis
    by (simp add: Connect_args_ok dial_connect_fails nodelay_other_replies)
next
  case (create iface ip port addr)
  then show ?thesis
    by (simp add: Connect_args_ok dial_create_fails nodelay_other_replies)
next
  case (ok iface ip port addr)
  then show ?thesis
    by (simp add: Connect_args_ok dial_succeeds nodelay_other_replies)
qed

lemma one_pass_facts:
  assumes "steps \<in> {[], [Socket], [Socket, Bind, Close], [Socket, Bind, NoDelay, Parse, Close],
      [Socket, Bind, NoDelay, Parse, TcpConnect, Close], [Socket, Bind, NoDelay, Parse, TcpConnect]}"
  shows "distinct steps"
    and "\<exists>n. filter (\<lambda>s. s \<noteq> Close) steps = take n [Socket, Bind, NoDelay, Parse, TcpConnect]"
    and "TcpConnect \<in> set steps \<longrightarrow> Bind \<in> set (takeWhile (\<lambda>s. s \<noteq> TcpConnect) steps)"
proof -
  from assms consider "steps = []" | "steps = [Socket]" | "steps = [Socket, Bind, Close]"
    | "steps = [Socket, Bind, NoDelay, Parse, Close]"
    | "steps = [Socket, Bind, NoDelay, Parse, TcpConnect, Close]"
    | "steps = [Socket, Bind, NoDelay, Parse, TcpConnect]"
    by auto
  note c = this
  from c show "distinct steps" by cases simp_all
  from c show "TcpConnect \<in> set steps \<longrightarrow> Bind \<in> set (takeWhile (\<lambda>s. s \<noteq> TcpConnect) steps)"
    by cases simp_all
  from c show "\<exists>n. filter (\<lambda>s. s \<noteq> Close) steps = take n [Socket, Bind, NoDelay, Parse, TcpConnect]"
  proof cases
    case 1 then show ?thesis by (intro exI [of _ 0]) simp
  next
    case 2 then show ?thesis by (intro exI [of _ 1]) simp
  next
    case 3 then show ?thesis by (intro exI [of _ 2]) simp
  next
    case 4 then show ?thesis by (intro exI [of _ 4]) simp
  next
    case 5 then show ?thesis by (intro exI [of _ 5]) simp
  next
    case 6 then show ?thesis by (intro exI [of _ 5]) simp
  qed
qed

lemma Connect_steps:
  "map step_of (new_calls p (snd (Connect env os cb p))) =
     (case fst (Connect env os cb p) of
        Inr _ \<Rightarrow> [Socket, Bind, NoDelay, Parse, TcpConnect]
      | Inl e \<Rightarrow>
          if err_msg e = ''socket() failed'' then [Socket]
          else if err_msg e = ''setsockopt(SO_BINDTODEVICE) failed'' then [Socket, Bind, Close]
          else if err_msg e = ''inet_pton() failed: invalid IP address''
            then [Socket, Bind, NoDelay, Parse, Close]
          else if err_msg e = ''connect() failed''
            then [Socket, Bind, NoDelay, Parse, TcpConnect, Close]
          else if err_msg e = ''Failed to create return value''
            then [Socket, Bind, NoDelay, Parse, TcpConnect, Close]
          else [])"
proof (cases rule: Connect_cases [of env cb os p])
  case (args e)
  then have "err_msg e \<in> {''Failed to parse arguments'', ''Usage: connect(iface, ip, port)'',
      ''Invalid iface argument'', ''Invalid ip argument'', ''Invalid port argument''}"
    by (auto simp: get_args_def Let_def napi_throw_error_def split: if_splits prod.splits)
  with args(2) show ?thesis by (auto simp: new_calls_same)
next
  case (socket iface ip port e)
  then show ?thesis by (simp add: new_calls_append napi_throw_error_def)
next
  case (bind iface ip port e)
  then show ?thesis by (simp add: new_calls_append napi_throw_error_def)
next
  case (parse iface ip port)
  then show ?thesis by (simp add: new_calls_append napi_throw_error_def)
next
  case (connect iface ip port addr e)
  then show ?thesis by (simp add: new_calls_append napi_throw_error_def)
next
  case (create iface ip port addr)
  then show ?thesis by (simp add: new_calls_append napi_throw_error_def)
next
  case (ok iface ip port addr)
  then show ?thesis by (simp add: new_calls_append_fds)
qed

lemma dial_after_parse:
  assumes sock: "socket_reply os = None"
    and bind: "bindtodevice_reply os (c_str iface) = None"
    and parse: "inet_pton4 (c_str ip) = Some addr"
  shows "fst (dial env os iface ip port p)
           \<noteq> Inl (napi_throw_error None ''inet_pton() failed: invalid IP address'')"
    and "filter (\<lambda>c. step_of c = Parse) (new_calls p (snd (dial env os iface ip port p)))
           = [Call_inet_pton (c_str ip)]"
    and "filter (\<lambda>c. step_of c = TcpConnect) (new_calls p (snd (dial env os iface ip port p)))
           = [Call_connect (new_fd p) (sockaddr_of port addr)]"
    and "connect_reply os (sockaddr_of port addr) = None \<and> create_int32_status env = napi_ok \<longrightarrow>
           fst (dial env os iface ip port p) = Inr (JsNumber (new_fd p))"
proof -
  consider (refused) e where "connect_reply os (sockaddr_of port addr) = Some e"
    | (create) "connect_reply os (sockaddr_of port addr) = None" "create_int32_status env \<noteq> napi_ok"
    | (ok) "connect_reply os (sockaddr_of port addr) = None" "create_int32_status env = napi_ok"
    by (cases "connect_reply os (sockaddr_of port addr)") auto
  note c = this
  from c show "fst (dial env os iface ip port p)
           \<noteq> Inl (napi_throw_error None ''inet_pton() failed: invalid IP address'')"
  proof cases
    case refused
    then show ?thesis
      by (simp add: dial_connect_fails [OF sock bind parse] napi_throw_error_def)
  next
    case create
    then show ?thesis
      by (simp add: dial_create_fails [OF sock bind parse] napi_throw_error_def)
  next
    case ok
    then show ?thesis by (simp add: dial_succeeds [OF sock bind parse])
  qed
  from c show "filter (\<lambda>c. step_of c = Parse) (new_calls p (snd (dial env os iface ip port p)))
           = [Call_inet_pton (c_str ip)]"
  proof cases
    case refused
    then show ?thesis by (simp add: dial_connect_fails [OF sock bind parse] new_calls_append)
  next
    case create
    then show ?thesis by (simp add: dial_create_fails [OF sock bind parse] new_calls_append)
  next
    case ok
    then show ?thesis by (simp add: dial_succeeds [OF sock bind parse] new_calls_append_fds)
  qed
  from c show "filter (\<lambda>c. step_of c = TcpConnect) (new_calls p (snd (dial env os iface ip port p)))
           = [Call_connect (new_fd p) (sockaddr_of port addr)]"
  proof cases
    case refused
    then show ?thesis by (simp add: dial_connect_fails [OF sock bind parse] new_calls_append)
  next
    case create
    then show ?thesis by (simp add: dial_create_fails [OF sock bind parse] new_calls_append)
  next
    case ok
    then show ?thesis by (simp add: dial_succeeds [OF sock bind parse] new_calls_append_fds)
  qed
  show "connect_reply os (sockaddr_of port addr) = None \<and> create_int32_status env = napi_ok \<longrightarrow>
           fst (dial env os iface ip port p) = Inr (JsNumber (new_fd p))"
    by (simp add: dial_succeeds [OF sock bind parse])
qed

section \<open>The concrete host\<close>

lemma get_args_js:
  assumes "get_cb_info_status env = napi_ok"
    and "list_all (\<lambda>c. (of_char c :: nat) < 128) i"
    and "list_all (\<lambda>c. (of_char c :: nat) < 128) a"
  shows "get_args env [js i, js a, JsNumber n] = Inr (take 15 i, take 15 a, word_of_int n)"
  using assms by (simp add: get_args_strings js_def write_utf8_ascii)

lemma host_env_cb: "get_cb_info_status host_env = napi_ok"
  by (simp add: host_env_def)

lemma host_env_create: "create_int32_status host_env = napi_ok"
  by (simp add: host_env_def)

lemma host_socket: "socket_reply host_os = None"
  by (simp add: host_os_def)

lemma host_new_fd: "new_fd host_proc = 3"
  by (simp add: new_fd_def host_proc_def lowest_unused_def)

lemma host_fds: "open_fds host_proc = [0, 1, 2]"
  by (simp add: host_proc_def)

lemma host_lo: "bindtodevice_reply host_os (c_str ''lo'') = None"
  by (simp add: host_os_def c_str_def)

lemma parse_loopback: "inet_pton4 (c_str ''127.0.0.1'') = Some [127, 0, 0, 1]"
  by (simp add: c_str_def inet_pton4_def octet_def decimal_def is_digit_def)

lemma host_refuses_80: "connect_reply host_os (sockaddr_of 80 [127, 0, 0, 1]) = Some 111"
  by (simp add: host_os_def sockaddr_of_def htons_def ntohs_def)

lemma host_serves_8080: "connect_reply host_os (sockaddr_of 8080 [127, 0, 0, 1]) = None"
  by (simp add: host_os_def sockaddr_of_def htons_def ntohs_def)

lemma args_lo_80:
  "get_args host_env [js ''lo'', js ''127.0.0.1'', JsNumber 80] = Inr (''lo'', ''127.0.0.1'', 80)"
  by (simp add: get_args_js host_env_cb)

lemma args_lo_8080:
  "get_args host_env [js ''lo'', js ''127.0.0.1'', JsNumber 8080] = Inr (''lo'', ''127.0.0.1'', 8080)"
  by (simp add: get_args_js host_env_cb)

lemma run_refused:
  "fst (Connect host_env host_os [js ''lo'', js ''127.0.0.1'', JsNumber 80] host_proc)
     = Inl (napi_throw_error (Some ''errno'') ''connect() failed'')"
  by (simp only: Connect_args_ok [OF args_lo_80]
      dial_connect_fails [OF host_socket host_lo parse_loopback host_refuses_80] fst_conv)

lemma run_served:
  "fst (Connect host_env host_os [js ''lo'', js ''127.0.0.1'', JsNumber 8080] host_proc)
     = Inr (JsNumber 3)"
  by (simp only: Connect_args_ok [OF args_lo_8080]
      dial_succeeds [OF host_socket host_lo parse_loopback host_serves_8080 host_env_create]
      fst_conv host_new_fd)

lemma host_no_such_device: "bindtodevice_reply host_os (c_str ''doesnotexist0'') = Some 19"
  by (simp add: host_os_def c_str_def)

lemma args_missing_device:
  "get_args host_env [js ''doesnotexist0'', js ''127.0.0.1'', JsNumber 80]
     = Inr (''doesnotexist0'', ''127.0.0.1'', 80)"
  by (simp add: get_args_js host_env_cb)

lemma host_no_wireguard: "bindtodevice_reply host_os (c_str ''wireguard-tunne'') = Some 19"
  by (simp add: host_os_def c_str_def)

lemma args_long_iface:
  "get_args host_env [js ''wireguard-tunnel-0'', js ''127.0.0.1'', JsNumber 8080]
     = Inr (''wireguard-tunne'', ''127.0.0.1'', 8080)"
  by (simp add: get_args_js host_env_cb)

lemma args_not_an_ip:
  "get_args host_env [js ''lo'', js ''not-an-ip'', JsNumber 80] = Inr (''lo'', ''not-an-ip'', 80)"
  by (simp add: get_args_js host_env_cb)

lemma args_999:
  "get_args host_env [js ''lo'', js ''999.999.999.999'', JsNumber 80]
     = Inr (''lo'', ''999.999.999.999'', 80)"
  by (simp add: get_args_js host_env_cb)

lemma parse_not_an_ip: "inet_pton4 (c_str ''not-an-ip'') = None"
  by (simp add: c_str_def inet_pton4_def octet_def decimal_def is_digit_def)

lemma parse_999: "inet_pton4 (c_str ''999.999.999.999'') = None"
  by (simp add: c_str_def inet_pton4_def octet_def decimal_def is_digit_def)

lemma args_overlong_address:
  "get_args host_env [js ''lo'', js ''192.168.100.1001'', JsNumber 80]
     = Inr (''lo'', ''192.168.100.100'', 80)"
  by (simp add: get_args_js host_env_cb)

lemma parse_whole_overlong: "inet_pton4 ''192.168.100.1001'' = None"
  by (simp add: inet_pton4_def octet_def decimal_def is_digit_def)

lemma parse_cut_overlong: "inet_pton4 (c_str ''192.168.100.100'') = Some [192, 168, 100, 100]"
  by (simp add: c_str_def inet_pton4_def octet_def decimal_def is_digit_def)

lemma host_refuses_lan: "connect_reply host_os (sockaddr_of 80 [192, 168, 100, 100]) = Some 111"
  by (simp add: host_os_def sockaddr_of_def)

lemma refusing_socket: "socket_reply (failing_os e) = None"
  by (simp add: failing_os_def host_os_def)

lemma refusing_lo: "bindtodevice_reply (failing_os e) (c_str ''lo'') = None"
  by (simp add: failing_os_def host_os_def c_str_def)

lemma refusing_connect:
  "connect_reply (failing_os e) (sockaddr_of 80 [127, 0, 0, 1]) = Some e"
  by (simp add: failing_os_def)

lemma run_refusing:
  "fst (Connect host_env (failing_os e)
         [js ''lo'', js ''127.0.0.1'', JsNumber 80] host_proc)
     = Inl (napi_throw_error (Some ''errno'') ''connect() failed'')"
  by (simp only: Connect_args_ok [OF args_lo_80]
      dial_connect_fails [OF refusing_socket refusing_lo parse_loopback refusing_connect] fst_conv)

lemma errno_refusing:
  "errno (snd (Connect host_env (failing_os e)
         [js ''lo'', js ''127.0.0.1'', JsNumber 80] host_proc)) = e"
  by (simp add: Connect_args_ok [OF args_lo_80]
      dial_connect_fails [OF refusing_socket refusing_lo parse_loopback refusing_connect])


lemma deaf_replies:
  "socket_reply deaf_os = None"
  "bindtodevice_reply deaf_os (c_str ''lo'') = None"
  "nodelay_reply deaf_os = Some 95"
  "connect_reply deaf_os (sockaddr_of 8080 [127, 0, 0, 1]) = None"
  by (simp_all add: deaf_os_def nodelay_other_replies host_socket host_lo host_serves_8080)

lemma args_wrapped_port:
  "get_args host_env [js ''lo'', js ''127.0.0.1'', JsNumber 73616]
     = Inr (''lo'', ''127.0.0.1'', word_of_int 73616)"
  by (simp add: get_args_js host_env_cb)

lemma host_serves_wrapped:
  "connect_reply host_os (sockaddr_of (word_of_int 73616) [127, 0, 0, 1]) = None"
proof -
  have "ntohs (sin_port (sockaddr_of (word_of_int 73616) [127, 0, 0, 1])) = 8080"
    by (simp only: target_port) simp
  moreover have "sin_addr (sockaddr_of (word_of_int 73616) [127, 0, 0, 1]) = [127, 0, 0, 1]"
    by (simp only: sockaddr_of_def sockaddr_in.simps)
  ultimately show ?thesis by (simp only: host_os_def os_replies.simps simp_thms if_True)
qed

lemma args_negative_port:
  "get_args host_env [js ''lo'', js ''127.0.0.1'', JsNumber (- 1)]
     = Inr (''lo'', ''127.0.0.1'', word_of_int (- 1))"
  by (simp add: get_args_js host_env_cb)

lemma lan_replies:
  "socket_reply lan_os = None"
  "bindtodevice_reply lan_os (c_str (write_utf8 (IFNAMSIZ - 1) (map of_char ''lo''))) = None"
  "connect_reply lan_os (sockaddr_of (word_of_int 80) [192, 168, 100, 100]) = None"
proof -
  show "socket_reply lan_os = None" by (simp add: lan_os_def host_os_def)
  have "write_utf8 (IFNAMSIZ - 1) (map of_char ''lo'') = take (IFNAMSIZ - 1) ''lo''"
    by (rule write_utf8_ascii) simp
  then have b: "write_utf8 (IFNAMSIZ - 1) (map of_char ''lo'') = ''lo''"
    by (simp add: IFNAMSIZ_def)
  show "bindtodevice_reply lan_os (c_str (write_utf8 (IFNAMSIZ - 1) (map of_char ''lo''))) = None"
    unfolding b by (simp add: lan_os_def host_os_def c_str_def)
  have "ntohs (sin_port (sockaddr_of (word_of_int 80) [192, 168, 100, 100])) = 80"
    by (simp only: target_port) simp
  moreover have "sin_addr (sockaddr_of (word_of_int 80) [192, 168, 100, 100]) = [192, 168, 100, 100]"
    by (simp only: sockaddr_of_def sockaddr_in.simps)
  ultimately show "connect_reply lan_os (sockaddr_of (word_of_int 80) [192, 168, 100, 100]) = None"
    by (simp add: lan_os_def)
qed

lemma overlong_prefix_valid:
  "inet_pton4 (utf8 (take (INET_ADDRSTRLEN - 1) (map of_char ''192.168.100.1001'')))
     = Some [192, 168, 100, 100]"
proof -
  have t: "take (INET_ADDRSTRLEN - 1) (map of_char ''192.168.100.1001'') = map of_char ''192.168.100.100''"
    by (simp add: INET_ADDRSTRLEN_def)
  have u: "utf8 (map of_char ''192.168.100.100'') = ''192.168.100.100''"
    by (rule utf8_ascii) simp
  have "inet_pton4 ''192.168.100.100'' = Some [192, 168, 100, 100]"
    by (simp add: inet_pton4_def octet_def decimal_def is_digit_def)
  then show ?thesis unfolding t u .
qed

lemma exhausted_socket: "socket_reply exhausted_os = Some 24"
  by (simp add: exhausted_os_def)

section \<open>Claims\<close>

text \<open>
  C1 (resource unwinding). Whatever the arguments and whatever the operating system
  answers: when \<open>Connect\<close> fails, the descriptor table is the one it started with and
  every descriptor created during the call was closed during the call; when it succeeds,
  exactly one descriptor was created, it was not open before, it is the value returned,
  and the call did not close it.
\<close>

theorem connect_unwinds_resources:
  assumes run: "Connect env os cb p = (res, p')"
  shows "(isl res \<longrightarrow>
            open_fds p' = open_fds p
          \<and> sockets_closed (new_calls p p') = sockets_created (new_calls p p'))
       \<and> (\<not> isl res \<longrightarrow>
            res = Inr (JsNumber (new_fd p))
          \<and> new_fd p \<notin> set (open_fds p)
          \<and> open_fds p' = new_fd p # open_fds p
          \<and> sockets_created (new_calls p p') = [new_fd p]
          \<and> sockets_closed (new_calls p p') = [])"
proof (cases rule: Connect_cases [of env cb os p])
  case (args e)
  with run show ?thesis by (auto simp: new_calls_same)
next
  case (socket iface ip port e)
  with run show ?thesis by (auto simp: new_calls_append)
next
  case (bind iface ip port e)
  with run new_fd_not_neg [of p] show ?thesis by (auto simp: new_calls_append)
next
  case (parse iface ip port)
  with run new_fd_not_neg [of p] show ?thesis by (auto simp: new_calls_append)
next
  case (connect iface ip port addr e)
  with run new_fd_not_neg [of p] show ?thesis by (auto simp: new_calls_append)
next
  case (create iface ip port addr)
  with run new_fd_not_neg [of p] show ?thesis by (auto simp: new_calls_append)
next
  case (ok iface ip port addr)
  with run new_fd_not_neg [of p] lowest_unused_fresh [of "open_fds p"] show ?thesis
    by (auto simp: new_calls_append_fds new_fd_def)
qed

theorem connect_unwinds_resources_witness:
  "isl (fst (Connect host_env host_os [js ''lo'', js ''127.0.0.1'', JsNumber 80] host_proc))
   \<and> open_fds (snd (Connect host_env host_os [js ''lo'', js ''127.0.0.1'', JsNumber 80] host_proc))
       = [0, 1, 2]
   \<and> \<not> isl (fst (Connect host_env host_os [js ''lo'', js ''127.0.0.1'', JsNumber 8080] host_proc))
   \<and> open_fds (snd (Connect host_env host_os [js ''lo'', js ''127.0.0.1'', JsNumber 8080] host_proc))
       = [3, 0, 1, 2]"
proof -
  let ?refused = "Connect host_env host_os [js ''lo'', js ''127.0.0.1'', JsNumber 80] host_proc"
  let ?served = "Connect host_env host_os [js ''lo'', js ''127.0.0.1'', JsNumber 8080] host_proc"
  have f: "isl (fst ?refused)" by (simp only: run_refused sum.disc)
  have s: "\<not> isl (fst ?served)" by (simp only: run_served sum.disc simp_thms)
  note r1 = connect_unwinds_resources
    [OF surjective_pairing, of host_env host_os "[js ''lo'', js ''127.0.0.1'', JsNumber 80]" host_proc]
  note r2 = connect_unwinds_resources
    [OF surjective_pairing, of host_env host_os "[js ''lo'', js ''127.0.0.1'', JsNumber 8080]" host_proc]
  from r1 f have 1: "open_fds (snd ?refused) = [0, 1, 2]"
    by (simp only: host_fds simp_thms)
  from r2 s have 2: "open_fds (snd ?served) = [3, 0, 1, 2]"
    by (simp only: host_fds host_new_fd simp_thms)
  show ?thesis by (intro conjI f s 1 2)
qed

text \<open>
  C2 (interface-name validation), as the code has it. The claim that a name longer than
  the platform maximum is rejected with \<open>InvalidArgument\<close> before any socket exists
  fails: the name \<open>wireguard-tunnel-0\<close> (18 bytes) is cut to \<open>wireguard-tunne\<close>, a
  socket is created, and the call ends with the bind error.
\<close>

theorem oversized_iface_counterexample:
  "IFNAMSIZ - 1 < length ''wireguard-tunnel-0''
   \<and> fst (Connect host_env host_os [js ''wireguard-tunnel-0'', js ''127.0.0.1'', JsNumber 8080] host_proc)
       = Inl (napi_throw_error (Some ''errno'') ''setsockopt(SO_BINDTODEVICE) failed'')
   \<and> error_kind (projl (fst (Connect host_env host_os
         [js ''wireguard-tunnel-0'', js ''127.0.0.1'', JsNumber 8080] host_proc)))
       \<noteq> Some InvalidArgument
   \<and> sockets_created (new_calls host_proc (snd (Connect host_env host_os
         [js ''wireguard-tunnel-0'', js ''127.0.0.1'', JsNumber 8080] host_proc))) = [3]"
proof -
  have l: "IFNAMSIZ - 1 < length ''wireguard-tunnel-0''" by (simp add: IFNAMSIZ_def)
  have r: "Connect host_env host_os [js ''wireguard-tunnel-0'', js ''127.0.0.1'', JsNumber 8080] host_proc
     = (Inl (napi_throw_error (Some ''errno'') ''setsockopt(SO_BINDTODEVICE) failed''),
        host_proc\<lparr>errno := 19,
          calls := calls host_proc @ [Call_socket 3, Call_bindtodevice 3 (c_str ''wireguard-tunne''),
                          Call_close 3]\<rparr>)"
    by (simp only: Connect_args_ok [OF args_long_iface]
        dial_bind_fails [OF host_socket host_no_wireguard] host_new_fd)
  have k: "error_kind (projl (fst (Connect host_env host_os
         [js ''wireguard-tunnel-0'', js ''127.0.0.1'', JsNumber 8080] host_proc)))
       \<noteq> Some InvalidArgument"
    by (simp add: r error_kind_simps)
  have c: "sockets_created (new_calls host_proc (snd (Connect host_env host_os
         [js ''wireguard-tunnel-0'', js ''127.0.0.1'', JsNumber 8080] host_proc))) = [3]"
    by (simp add: r new_calls_append)
  have f: "fst (Connect host_env host_os [js ''wireguard-tunnel-0'', js ''127.0.0.1'', JsNumber 8080] host_proc)
       = Inl (napi_throw_error (Some ''errno'') ''setsockopt(SO_BINDTODEVICE) failed'')"
    by (simp add: r)
  show ?thesis by (intro conjI l f k c)
qed

text \<open>
  C2, amended. When the interface argument is not a string, \<open>Connect\<close> throws the error
  of kind \<open>InvalidArgument\<close> and makes no call to the operating system. When it is a
  string, it is never rejected for its length: no error of kind \<open>InvalidArgument\<close> is
  thrown, only the first \<open>IFNAMSIZ - 1 = 15\<close> characters matter (the call is the same as
  the call with the name cut to 15 characters), and when the address is a string and the
  port a number the first call made is \<open>socket()\<close>; when that succeeds, one socket is
  created and the binding is attempted with the name as cut to fit the buffer.
\<close>

theorem iface_argument_validation:
  assumes cbok: "get_cb_info_status env = napi_ok" and len: "3 \<le> length cb"
  shows "(\<not> is_string (cb ! 0) \<longrightarrow>
            Connect env os cb p = (Inl (napi_throw_error None ''Invalid iface argument''), p)
          \<and> error_kind (projl (fst (Connect env os cb p))) = Some InvalidArgument
          \<and> new_calls p (snd (Connect env os cb p)) = [])
       \<and> (cb ! 0 = JsString name \<longrightarrow>
            Connect env os cb p = Connect env os (cb[0 := JsString (take (IFNAMSIZ - 1) name)]) p)
       \<and> (cb ! 0 = JsString name \<longrightarrow>
            fst (Connect env os cb p) \<noteq> Inl (napi_throw_error None ''Invalid iface argument'')
          \<and> (isl (fst (Connect env os cb p)) \<longrightarrow>
               error_kind (projl (fst (Connect env os cb p))) \<noteq> Some InvalidArgument))
       \<and> (cb ! 0 = JsString name \<and> cb ! 1 = JsString a \<and> cb ! 2 = JsNumber n \<longrightarrow>
            take 1 (new_calls p (snd (Connect env os cb p)))
              = [Call_socket (if socket_reply os = None then new_fd p else - 1)]
          \<and> (socket_reply os = None \<longrightarrow>
               sockets_created (new_calls p (snd (Connect env os cb p))) = [new_fd p]
             \<and> filter (\<lambda>c. step_of c = Bind) (new_calls p (snd (Connect env os cb p)))
                 = [Call_bindtodevice (new_fd p) (c_str (write_utf8 (IFNAMSIZ - 1) name))]))"
proof (intro conjI impI)
  assume ns: "\<not> is_string (cb ! 0)"
  from Connect_args_fail [OF get_args_not_string [OF cbok len ns]]
  show r: "Connect env os cb p = (Inl (napi_throw_error None ''Invalid iface argument''), p)" .
  show "error_kind (projl (fst (Connect env os cb p))) = Some InvalidArgument"
    by (simp add: r error_kind_simps)
  show "new_calls p (snd (Connect env os cb p)) = []"
    by (simp add: r new_calls_same)
next
  assume "cb ! 0 = JsString name"
  from get_args_iface_prefix [OF this]
  show "Connect env os cb p = Connect env os (cb[0 := JsString (take (IFNAMSIZ - 1) name)]) p"
    by (simp add: Connect_def IFNAMSIZ_def)
next
  assume s: "cb ! 0 = JsString name"
  have k: "fst (Connect env os cb p) \<noteq> Inl (napi_throw_error None ''Invalid iface argument'')
      \<and> (isl (fst (Connect env os cb p)) \<longrightarrow>
           error_kind (projl (fst (Connect env os cb p))) \<noteq> Some InvalidArgument)"
  proof (cases rule: Connect_cases [of env cb os p])
    case (args e)
    with s cbok have "e = napi_throw_error None ''Invalid ip argument''
        \<or> e = napi_throw_error None ''Invalid port argument''"
      by (auto simp: get_args_Inl_Inr [OF len] napi_get_value_string_utf8_def split: if_splits)
    with args(2) show ?thesis
      by (auto simp: error_kind_def napi_throw_error_def)
  next
    case (socket iface ip port e)
    then show ?thesis by (simp add: error_kind_def napi_throw_error_def)
  next
    case (bind iface ip port e)
    then show ?thesis by (simp add: error_kind_def napi_throw_error_def)
  next
    case (parse iface ip port)
    then show ?thesis by (simp add: error_kind_def napi_throw_error_def)
  next
    case (connect iface ip port addr e)
    then show ?thesis by (simp add: error_kind_def napi_throw_error_def)
  next
    case (create iface ip port addr)
    then show ?thesis by (simp add: error_kind_def napi_throw_error_def)
  next
    case (ok iface ip port addr)
    then show ?thesis by simp
  qed
  from k show "fst (Connect env os cb p) \<noteq> Inl (napi_throw_error None ''Invalid iface argument'')"
    by (rule conjunct1)
  assume "isl (fst (Connect env os cb p))"
  with k show "error_kind (projl (fst (Connect env os cb p))) \<noteq> Some InvalidArgument"
    by simp
next
  assume h: "cb ! 0 = JsString name \<and> cb ! 1 = JsString a \<and> cb ! 2 = JsNumber n"
  with cbok len
  have ga: "get_args env cb = Inr (write_utf8 15 name, write_utf8 15 a, word_of_int n)"
    by (simp add: get_args_strings)
  show "take 1 (new_calls p (snd (Connect env os cb p)))
      = [Call_socket (if socket_reply os = None then new_fd p else - 1)]"
  proof (cases rule: Connect_cases [of env cb os p])
    case (args e)
    with ga show ?thesis by simp
  next
    case (socket iface ip port e)
    then show ?thesis by (simp add: new_calls_append)
  next
    case (bind iface ip port e)
    then show ?thesis by (simp add: new_calls_append)
  next
    case (parse iface ip port)
    then show ?thesis by (simp add: new_calls_append)
  next
    case (connect iface ip port addr e)
    then show ?thesis by (simp add: new_calls_append)
  next
    case (create iface ip port addr)
    then show ?thesis by (simp add: new_calls_append)
  next
    case (ok iface ip port addr)
    then show ?thesis by (simp add: new_calls_append_fds)
  qed
  assume sock: "socket_reply os = None"
  have both: "sockets_created (new_calls p (snd (Connect env os cb p))) = [new_fd p]
      \<and> filter (\<lambda>c. step_of c = Bind) (new_calls p (snd (Connect env os cb p)))
          = [Call_bindtodevice (new_fd p) (c_str (write_utf8 (IFNAMSIZ - 1) name))]"
  proof (cases rule: Connect_cases [of env cb os p])
    case (args e)
    with ga show ?thesis by simp
  next
    case (socket iface ip port e)
    with sock show ?thesis by simp
  next
    case (bind iface ip port e)
    with ga new_fd_not_neg [of p] show ?thesis by (simp add: new_calls_append IFNAMSIZ_def)
  next
    case (parse iface ip port)
    with ga new_fd_not_neg [of p] show ?thesis by (simp add: new_calls_append IFNAMSIZ_def)
  next
    case (connect iface ip port addr e)
    with ga new_fd_not_neg [of p] show ?thesis by (simp add: new_calls_append IFNAMSIZ_def)
  next
    case (create iface ip port addr)
    with ga new_fd_not_neg [of p] show ?thesis by (simp add: new_calls_append IFNAMSIZ_def)
  next
    case (ok iface ip port addr)
    with ga new_fd_not_neg [of p] show ?thesis by (simp add: new_calls_append_fds IFNAMSIZ_def)
  qed
  from both show "sockets_created (new_calls p (snd (Connect env os cb p))) = [new_fd p]"
    by (rule conjunct1)
  from both show "filter (\<lambda>c. step_of c = Bind) (new_calls p (snd (Connect env os cb p)))
      = [Call_bindtodevice (new_fd p) (c_str (write_utf8 (IFNAMSIZ - 1) name))]"
    by (rule conjunct2)
qed

theorem iface_argument_validation_witness:
  "get_cb_info_status host_env = napi_ok
   \<and> 3 \<le> length [JsNumber 7, js ''127.0.0.1'', JsNumber 8080]
   \<and> \<not> is_string ([JsNumber 7, js ''127.0.0.1'', JsNumber 8080] ! 0)
   \<and> Connect host_env host_os [JsNumber 7, js ''127.0.0.1'', JsNumber 8080] host_proc
       = (Inl (napi_throw_error None ''Invalid iface argument''), host_proc)
   \<and> 3 \<le> length [js ''wireguard-tunnel-0'', js ''127.0.0.1'', JsNumber 8080]
   \<and> [js ''wireguard-tunnel-0'', js ''127.0.0.1'', JsNumber 8080] ! 0
       = JsString (map of_char ''wireguard-tunnel-0'')
   \<and> [js ''wireguard-tunnel-0'', js ''127.0.0.1'', JsNumber 8080] ! 1
       = JsString (map of_char ''127.0.0.1'')
   \<and> [js ''wireguard-tunnel-0'', js ''127.0.0.1'', JsNumber 8080] ! 2 = JsNumber 8080
   \<and> IFNAMSIZ - 1 < length (map of_char ''wireguard-tunnel-0'' :: nat list)
   \<and> socket_reply host_os = None
   \<and> Connect host_env host_os [js ''wireguard-tunnel-0'', js ''127.0.0.1'', JsNumber 8080] host_proc
       = Connect host_env host_os [js ''wireguard-tunne'', js ''127.0.0.1'', JsNumber 8080] host_proc
   \<and> fst (Connect host_env host_os [js ''wireguard-tunnel-0'', js ''127.0.0.1'', JsNumber 8080] host_proc)
       \<noteq> Inl (napi_throw_error None ''Invalid iface argument'')
   \<and> take 1 (new_calls host_proc (snd (Connect host_env host_os
         [js ''wireguard-tunnel-0'', js ''127.0.0.1'', JsNumber 8080] host_proc)))
       = [Call_socket 3]
   \<and> sockets_created (new_calls host_proc (snd (Connect host_env host_os
         [js ''wireguard-tunnel-0'', js ''127.0.0.1'', JsNumber 8080] host_proc))) = [3]"
proof -
  have l1: "3 \<le> length [JsNumber 7, js ''127.0.0.1'', JsNumber 8080]" by simp
  have n1: "\<not> is_string ([JsNumber 7, js ''127.0.0.1'', JsNumber 8080] ! 0)" by simp
  have l2: "3 \<le> length [js ''wireguard-tunnel-0'', js ''127.0.0.1'', JsNumber 8080]" by simp
  have n2: "[js ''wireguard-tunnel-0'', js ''127.0.0.1'', JsNumber 8080] ! 0
     = JsString (map of_char ''wireguard-tunnel-0'')" by (simp add: js_def)
  have a2: "[js ''wireguard-tunnel-0'', js ''127.0.0.1'', JsNumber 8080] ! 1
     = JsString (map of_char ''127.0.0.1'')" by (simp add: js_def)
  have p2: "[js ''wireguard-tunnel-0'', js ''127.0.0.1'', JsNumber 8080] ! 2 = JsNumber 8080"
    by simp
  have long: "IFNAMSIZ - 1 < length (map of_char ''wireguard-tunnel-0'' :: nat list)"
    by (simp add: IFNAMSIZ_def)
  have c: "[js ''wireguard-tunnel-0'', js ''127.0.0.1'', JsNumber 8080]
       [0 := JsString (take (IFNAMSIZ - 1) (map of_char ''wireguard-tunnel-0''))]
     = [js ''wireguard-tunne'', js ''127.0.0.1'', JsNumber 8080]"
    by (simp add: js_def IFNAMSIZ_def)
  have h: "[js ''wireguard-tunnel-0'', js ''127.0.0.1'', JsNumber 8080] ! 0
       = JsString (map of_char ''wireguard-tunnel-0'')
     \<and> [js ''wireguard-tunnel-0'', js ''127.0.0.1'', JsNumber 8080] ! 1
       = JsString (map of_char ''127.0.0.1'')
     \<and> [js ''wireguard-tunnel-0'', js ''127.0.0.1'', JsNumber 8080] ! 2 = JsNumber 8080"
    by (intro conjI n2 a2 p2)
  have s: "(if socket_reply host_os = None then 3 else - 1) = (3::int)"
    by (simp add: host_socket)
  note r1 = iface_argument_validation [OF host_env_cb l1, where os = host_os and p = host_proc,
      THEN conjunct1, THEN mp, OF n1, THEN conjunct1]
  note r2 = iface_argument_validation [OF host_env_cb l2, where os = host_os and p = host_proc,
      THEN conjunct2, THEN conjunct1, THEN mp, OF n2, unfolded c]
  note r3 = iface_argument_validation [OF host_env_cb l2, where os = host_os and p = host_proc,
      THEN conjunct2, THEN conjunct2, THEN conjunct1, THEN mp, OF n2, THEN conjunct1]
  note r4 = iface_argument_validation [OF host_env_cb l2, where os = host_os and p = host_proc,
      THEN conjunct2, THEN conjunct2, THEN conjunct2, THEN mp, OF h, unfolded host_new_fd s]
  show ?thesis
    by (intro conjI host_env_cb l1 n1 r1 l2 n2 a2 p2 long host_socket r2 r3
        r4 [THEN conjunct1] r4 [THEN conjunct2, THEN mp, OF host_socket, THEN conjunct1])
qed

text \<open>
  C3 (interface-bind failure). When the arguments were read, \<open>socket()\<close> succeeded and
  the operating system rejects \<open>SO_BINDTODEVICE\<close> for the interface name, \<open>Connect\<close>
  throws the error of kind \<open>InterfaceBindFailed\<close>; the calls it made are \<open>socket\<close>,
  the rejected \<open>setsockopt\<close> and \<open>close\<close> of the new descriptor, and the descriptor
  table is the one it started with.
\<close>

theorem bind_failure_closes_socket:
  assumes args: "get_args env cb = Inr (iface, ip, port)"
    and sock: "socket_reply os = None"
    and bind: "bindtodevice_reply os (c_str iface) = Some e"
    and run: "Connect env os cb p = (res, p')"
  shows "res = Inl (napi_throw_error (Some ''errno'') ''setsockopt(SO_BINDTODEVICE) failed'')
       \<and> error_kind (projl res) = Some InterfaceBindFailed
       \<and> new_calls p p' =
           [Call_socket (new_fd p), Call_bindtodevice (new_fd p) (c_str iface), Call_close (new_fd p)]
       \<and> open_fds p' = open_fds p"
proof -
  from run have "dial env os iface ip port p = (res, p')"
    by (simp add: Connect_args_ok [OF args])
  with dial_bind_fails [OF sock bind, of env ip port p]
  have res: "res = Inl (napi_throw_error (Some ''errno'') ''setsockopt(SO_BINDTODEVICE) failed'')"
    and p': "p' = p\<lparr>errno := e,
       calls := calls p @ [Call_socket (new_fd p), Call_bindtodevice (new_fd p) (c_str iface),
                          Call_close (new_fd p)]\<rparr>"
    by simp_all
  show ?thesis
    by (simp add: res p' new_calls_append error_kind_simps)
qed

theorem bind_failure_closes_socket_witness:
  "get_args host_env [js ''doesnotexist0'', js ''127.0.0.1'', JsNumber 80]
     = Inr (''doesnotexist0'', ''127.0.0.1'', 80)
   \<and> socket_reply host_os = None
   \<and> bindtodevice_reply host_os (c_str ''doesnotexist0'') = Some 19
   \<and> fst (Connect host_env host_os [js ''doesnotexist0'', js ''127.0.0.1'', JsNumber 80] host_proc)
       = Inl (napi_throw_error (Some ''errno'') ''setsockopt(SO_BINDTODEVICE) failed'')
   \<and> error_kind (projl (fst (Connect host_env host_os
         [js ''doesnotexist0'', js ''127.0.0.1'', JsNumber 80] host_proc)))
       = Some InterfaceBindFailed
   \<and> new_calls host_proc
         (snd (Connect host_env host_os [js ''doesnotexist0'', js ''127.0.0.1'', JsNumber 80] host_proc))
       = [Call_socket 3, Call_bindtodevice 3 (c_str ''doesnotexist0''), Call_close 3]
   \<and> open_fds (snd (Connect host_env host_os [js ''doesnotexist0'', js ''127.0.0.1'', JsNumber 80] host_proc))
       = [0, 1, 2]"
proof -
  note r = bind_failure_closes_socket
    [OF args_missing_device host_socket host_no_such_device surjective_pairing, of host_proc,
     unfolded host_new_fd host_fds]
  show ?thesis
    by (intro conjI args_missing_device host_socket host_no_such_device
        r [THEN conjunct1] r [THEN conjunct2, THEN conjunct1]
        r [THEN conjunct2, THEN conjunct2, THEN conjunct1]
        r [THEN conjunct2, THEN conjunct2, THEN conjunct2])
qed

text \<open>
  C4 (address-parse failure), as the code has it. The claim that every address string
  that is not a valid IPv4 literal ends in \<open>InvalidAddress\<close> fails: the 16-character
  string \<open>192.168.100.1001\<close> is no IPv4 literal, but its first 15 characters are, and
  the call goes on to connect to 192.168.100.100 (and here ends with the connect error).
\<close>

theorem overlong_address_counterexample:
  "inet_pton4 ''192.168.100.1001'' = None
   \<and> fst (Connect host_env host_os [js ''lo'', js ''192.168.100.1001'', JsNumber 80] host_proc)
       = Inl (napi_throw_error (Some ''errno'') ''connect() failed'')
   \<and> error_kind (projl (fst (Connect host_env host_os
         [js ''lo'', js ''192.168.100.1001'', JsNumber 80] host_proc))) \<noteq> Some InvalidAddress"
proof -
  have r: "fst (Connect host_env host_os [js ''lo'', js ''192.168.100.1001'', JsNumber 80] host_proc)
       = Inl (napi_throw_error (Some ''errno'') ''connect() failed'')"
    by (simp only: Connect_args_ok [OF args_overlong_address]
        dial_connect_fails [OF host_socket host_lo parse_cut_overlong host_refuses_lan] fst_conv)
  have k: "error_kind (projl (fst (Connect host_env host_os
         [js ''lo'', js ''192.168.100.1001'', JsNumber 80] host_proc))) \<noteq> Some InvalidAddress"
    by (simp add: r error_kind_simps)
  show ?thesis by (intro conjI parse_whole_overlong r k)
qed

text \<open>
  C4, amended. The address that is parsed is the content of the 16-byte buffer: the
  argument cut to what fits into \<open>INET_ADDRSTRLEN - 1 = 15\<close> bytes, read up to its first
  NUL byte. When the arguments were read, \<open>socket()\<close> and the interface binding succeeded
  and that buffer content is not accepted by \<open>inet_pton\<close>, \<open>Connect\<close> throws the error
  of kind \<open>InvalidAddress\<close>; it does so after \<open>socket\<close>, the binding and the no-delay
  step, it closes the new descriptor, and the descriptor table is the one it started with.
\<close>

theorem address_parse_failure:
  assumes args: "get_args env cb = Inr (iface, ip, port)"
    and sock: "socket_reply os = None"
    and bind: "bindtodevice_reply os (c_str iface) = None"
    and parse: "inet_pton4 (c_str ip) = None"
    and run: "Connect env os cb p = (res, p')"
  shows "(\<exists>a. cb ! 1 = JsString a \<and> ip = write_utf8 (INET_ADDRSTRLEN - 1) a)
       \<and> res = Inl (napi_throw_error None ''inet_pton() failed: invalid IP address'')
       \<and> error_kind (projl res) = Some InvalidAddress
       \<and> new_calls p p' =
           [Call_socket (new_fd p), Call_bindtodevice (new_fd p) (c_str iface),
            Call_nodelay (new_fd p), Call_inet_pton (c_str ip), Call_close (new_fd p)]
       \<and> open_fds p' = open_fds p"
proof -
  from get_args_Inr [OF args]
  have buf: "\<exists>a. cb ! 1 = JsString a \<and> ip = write_utf8 (INET_ADDRSTRLEN - 1) a"
    by (auto simp: INET_ADDRSTRLEN_def)
  from run have "dial env os iface ip port p = (res, p')"
    by (simp add: Connect_args_ok [OF args])
  with dial_parse_fails [OF sock bind parse, of env port p]
  have res: "res = Inl (napi_throw_error None ''inet_pton() failed: invalid IP address'')"
    and p': "p' = p\<lparr>errno := errno_nodelay os p,
       calls := calls p @ [Call_socket (new_fd p), Call_bindtodevice (new_fd p) (c_str iface),
                          Call_nodelay (new_fd p), Call_inet_pton (c_str ip),
                          Call_close (new_fd p)]\<rparr>"
    by simp_all
  show ?thesis
    using buf by (simp add: res p' new_calls_append error_kind_simps)
qed

theorem address_parse_failure_witness:
  "get_args host_env [js ''lo'', js ''not-an-ip'', JsNumber 80] = Inr (''lo'', ''not-an-ip'', 80)
   \<and> get_args host_env [js ''lo'', js ''999.999.999.999'', JsNumber 80]
       = Inr (''lo'', ''999.999.999.999'', 80)
   \<and> socket_reply host_os = None
   \<and> bindtodevice_reply host_os (c_str ''lo'') = None
   \<and> inet_pton4 (c_str ''not-an-ip'') = None
   \<and> inet_pton4 (c_str ''999.999.999.999'') = None
   \<and> fst (Connect host_env host_os [js ''lo'', js ''not-an-ip'', JsNumber 80] host_proc)
       = Inl (napi_throw_error None ''inet_pton() failed: invalid IP address'')
   \<and> open_fds (snd (Connect host_env host_os [js ''lo'', js ''not-an-ip'', JsNumber 80] host_proc))
       = [0, 1, 2]
   \<and> fst (Connect host_env host_os [js ''lo'', js ''999.999.999.999'', JsNumber 80] host_proc)
       = Inl (napi_throw_error None ''inet_pton() failed: invalid IP address'')
   \<and> error_kind (projl (fst (Connect host_env host_os
         [js ''lo'', js ''999.999.999.999'', JsNumber 80] host_proc))) = Some InvalidAddress"
proof -
  note r1 = address_parse_failure
    [OF args_not_an_ip host_socket host_lo parse_not_an_ip surjective_pairing, of host_proc,
     unfolded host_new_fd host_fds, THEN conjunct2]
  note r2 = address_parse_failure
    [OF args_999 host_socket host_lo parse_999 surjective_pairing, of host_proc,
     unfolded host_new_fd host_fds, THEN conjunct2]
  show ?thesis
    by (intro conjI args_not_an_ip args_999 host_socket host_lo parse_not_an_ip parse_999
        r1 [THEN conjunct1] r1 [THEN conjunct2, THEN conjunct2, THEN conjunct2]
        r2 [THEN conjunct1] r2 [THEN conjunct2, THEN conjunct1])
qed

text \<open>
  C5 (connect failure), as the code has it. The claim that the error number of the
  operating system is preserved in the error that reaches the caller fails: a connect
  that fails with \<open>ECONNREFUSED\<close> (111) and one that fails with \<open>ETIMEDOUT\<close> (110)
  leave different values in \<open>errno\<close>, and the caller gets the same error for both.
\<close>

theorem os_error_code_counterexample:
  "errno (snd (Connect host_env (failing_os 111)
         [js ''lo'', js ''127.0.0.1'', JsNumber 80] host_proc)) = 111
   \<and> errno (snd (Connect host_env (failing_os 110)
         [js ''lo'', js ''127.0.0.1'', JsNumber 80] host_proc)) = 110
   \<and> fst (Connect host_env (failing_os 111)
         [js ''lo'', js ''127.0.0.1'', JsNumber 80] host_proc)
     = fst (Connect host_env (failing_os 110)
         [js ''lo'', js ''127.0.0.1'', JsNumber 80] host_proc)"
  by (simp only: errno_refusing run_refusing simp_thms)

text \<open>
  C5, amended. When the arguments were read, \<open>socket()\<close>, the interface binding and the
  address parsing succeeded and \<open>connect\<close> fails, \<open>Connect\<close> throws the error of kind
  \<open>ConnectFailed\<close>, closes the new descriptor and leaves the descriptor table as it
  found it. The error is the fixed pair of the code string \<open>errno\<close> and the message
  \<open>connect() failed\<close>, whatever the error number \<open>e\<close> of the operating system is.
\<close>

theorem connect_failure_closes_socket:
  assumes args: "get_args env cb = Inr (iface, ip, port)"
    and sock: "socket_reply os = None"
    and bind: "bindtodevice_reply os (c_str iface) = None"
    and parse: "inet_pton4 (c_str ip) = Some addr"
    and conn: "connect_reply os (sockaddr_of port addr) = Some e"
    and run: "Connect env os cb p = (res, p')"
  shows "res = Inl \<lparr>err_code = Some ''errno'', err_msg = ''connect() failed''\<rparr>
       \<and> error_kind (projl res) = Some ConnectFailed
       \<and> new_calls p p' =
           [Call_socket (new_fd p), Call_bindtodevice (new_fd p) (c_str iface),
            Call_nodelay (new_fd p), Call_inet_pton (c_str ip),
            Call_connect (new_fd p) (sockaddr_of port addr), Call_close (new_fd p)]
       \<and> open_fds p' = open_fds p"
proof -
  from run have "dial env os iface ip port p = (res, p')"
    by (simp add: Connect_args_ok [OF args])
  with dial_connect_fails [OF sock bind parse conn, of env p]
  have res: "res = Inl (napi_throw_error (Some ''errno'') ''connect() failed'')"
    and p': "p' = p\<lparr>errno := e,
       calls := calls p @ [Call_socket (new_fd p), Call_bindtodevice (new_fd p) (c_str iface),
                          Call_nodelay (new_fd p), Call_inet_pton (c_str ip),
                          Call_connect (new_fd p) (sockaddr_of port addr),
                          Call_close (new_fd p)]\<rparr>"
    by simp_all
  have k: "error_kind (projl res) = Some ConnectFailed"
    by (simp add: res error_kind_simps)
  show ?thesis
    using k by (simp add: res p' new_calls_append napi_throw_error_def)
qed

theorem connect_failure_closes_socket_witness:
  "get_args host_env [js ''lo'', js ''127.0.0.1'', JsNumber 80] = Inr (''lo'', ''127.0.0.1'', 80)
   \<and> socket_reply host_os = None
   \<and> bindtodevice_reply host_os (c_str ''lo'') = None
   \<and> inet_pton4 (c_str ''127.0.0.1'') = Some [127, 0, 0, 1]
   \<and> connect_reply host_os (sockaddr_of 80 [127, 0, 0, 1]) = Some 111
   \<and> fst (Connect host_env host_os [js ''lo'', js ''127.0.0.1'', JsNumber 80] host_proc)
       = Inl \<lparr>err_code = Some ''errno'', err_msg = ''connect() failed''\<rparr>
   \<and> error_kind (projl (fst (Connect host_env host_os
         [js ''lo'', js ''127.0.0.1'', JsNumber 80] host_proc))) = Some ConnectFailed
   \<and> open_fds (snd (Connect host_env host_os [js ''lo'', js ''127.0.0.1'', JsNumber 80] host_proc))
       = [0, 1, 2]"
proof -
  note r = connect_failure_closes_socket
    [OF args_lo_80 host_socket host_lo parse_loopback host_refuses_80 surjective_pairing,
     of host_proc, unfolded host_new_fd host_fds]
  show ?thesis
    by (intro conjI args_lo_80 host_socket host_lo parse_loopback host_refuses_80
        r [THEN conjunct1] r [THEN conjunct2, THEN conjunct1]
        r [THEN conjunct2, THEN conjunct2, THEN conjunct2])
qed

text \<open>
  C6 (best-effort no-delay tuning). The answer \<open>r\<close> of the operating system to the
  \<open>TCP_NODELAY\<close> call has no influence on the call: the result of \<open>Connect\<close>, the
  descriptor table it leaves and the calls it makes are the same as with any other answer.
  In particular, when that step fails and every other step succeeds, \<open>Connect\<close> goes on
  to parse the address and to connect, and returns the new descriptor.
\<close>

theorem nodelay_failure_is_ignored:
  "fst (Connect env (os\<lparr>nodelay_reply := r\<rparr>) cb p) = fst (Connect env os cb p)
   \<and> open_fds (snd (Connect env (os\<lparr>nodelay_reply := r\<rparr>) cb p)) = open_fds (snd (Connect env os cb p))
   \<and> calls (snd (Connect env (os\<lparr>nodelay_reply := r\<rparr>) cb p)) = calls (snd (Connect env os cb p))
   \<and> (get_args env cb = Inr (iface, ip, port) \<and> socket_reply os = None
        \<and> bindtodevice_reply os (c_str iface) = None \<and> nodelay_reply os = Some e
        \<and> inet_pton4 (c_str ip) = Some addr \<and> connect_reply os (sockaddr_of port addr) = None
        \<and> create_int32_status env = napi_ok \<longrightarrow>
          fst (Connect env os cb p) = Inr (JsNumber (new_fd p))
        \<and> new_calls p (snd (Connect env os cb p)) =
            [Call_socket (new_fd p), Call_bindtodevice (new_fd p) (c_str iface),
             Call_nodelay (new_fd p), Call_inet_pton (c_str ip),
             Call_connect (new_fd p) (sockaddr_of port addr)])"
proof -
  have "fst (Connect env os cb p) = Inr (JsNumber (new_fd p))
        \<and> new_calls p (snd (Connect env os cb p)) =
            [Call_socket (new_fd p), Call_bindtodevice (new_fd p) (c_str iface),
             Call_nodelay (new_fd p), Call_inet_pton (c_str ip),
             Call_connect (new_fd p) (sockaddr_of port addr)]"
    if h: "get_args env cb = Inr (iface, ip, port)" "socket_reply os = None"
       "bindtodevice_reply os (c_str iface) = None"
       "inet_pton4 (c_str ip) = Some addr" "connect_reply os (sockaddr_of port addr) = None"
       "create_int32_status env = napi_ok"
    using h by (simp add: Connect_args_ok dial_succeeds new_calls_append_fds)
  with Connect_nodelay_irrelevant [where env = env and os = os and r = r and cb = cb and p = p]
  show ?thesis by blast
qed

theorem nodelay_failure_is_ignored_witness:
  "get_args host_env [js ''lo'', js ''127.0.0.1'', JsNumber 8080] = Inr (''lo'', ''127.0.0.1'', 8080)
   \<and> socket_reply deaf_os = None
   \<and> bindtodevice_reply deaf_os (c_str ''lo'') = None
   \<and> nodelay_reply deaf_os = Some 95
   \<and> inet_pton4 (c_str ''127.0.0.1'') = Some [127, 0, 0, 1]
   \<and> connect_reply deaf_os (sockaddr_of 8080 [127, 0, 0, 1]) = None
   \<and> create_int32_status host_env = napi_ok
   \<and> fst (Connect host_env deaf_os [js ''lo'', js ''127.0.0.1'', JsNumber 8080] host_proc)
       = Inr (JsNumber 3)"
proof -
  note h = args_lo_8080 deaf_replies(1) deaf_replies(2) deaf_replies(3) parse_loopback
    deaf_replies(4) host_env_create
  have all: "get_args host_env [js ''lo'', js ''127.0.0.1'', JsNumber 8080] = Inr (''lo'', ''127.0.0.1'', 8080)
   \<and> socket_reply deaf_os = None
   \<and> bindtodevice_reply deaf_os (c_str ''lo'') = None
   \<and> nodelay_reply deaf_os = Some 95
   \<and> inet_pton4 (c_str ''127.0.0.1'') = Some [127, 0, 0, 1]
   \<and> connect_reply deaf_os (sockaddr_of 8080 [127, 0, 0, 1]) = None
   \<and> create_int32_status host_env = napi_ok"
    by (intro conjI h)
  note r = nodelay_failure_is_ignored [where os = deaf_os and p = host_proc,
      THEN conjunct2, THEN conjunct2, THEN conjunct2, THEN mp, OF all, THEN conjunct1,
      unfolded host_new_fd]
  show ?thesis by (intro conjI h r)
qed

text \<open>
  C7 (linear ordered execution). The steps of an invocation, in the order of its calls,
  are one of six sequences: nothing (the arguments were rejected), or an initial part of
  socket creation, interface binding, no-delay tuning, address parsing, TCP connect,
  followed by the closing of the socket when a step failed. So no step is taken twice,
  the steps other than the closing are an initial part of the ordered sequence, and a
  connect is preceded by the binding. The first mandatory step that the operating system
  or the parser fails ends the sequence: when the arguments are rejected no step is
  taken; when \<open>socket()\<close> fails it is the only step; when the binding is rejected, the
  address does not parse or the connect fails, that step is followed by the closing only,
  and the error thrown is the one of that step. When no mandatory step fails, all five
  steps are taken.
\<close>

theorem connect_is_one_linear_pass:
  assumes run: "Connect env os cb p = (res, p')"
  shows "map step_of (new_calls p p') \<in>
           {[], [Socket], [Socket, Bind, Close], [Socket, Bind, NoDelay, Parse, Close],
            [Socket, Bind, NoDelay, Parse, TcpConnect, Close],
            [Socket, Bind, NoDelay, Parse, TcpConnect]}
       \<and> distinct (map step_of (new_calls p p'))
       \<and> (\<exists>n. filter (\<lambda>s. s \<noteq> Close) (map step_of (new_calls p p'))
                = take n [Socket, Bind, NoDelay, Parse, TcpConnect])
       \<and> (TcpConnect \<in> set (map step_of (new_calls p p')) \<longrightarrow>
            Bind \<in> set (takeWhile (\<lambda>s. s \<noteq> TcpConnect) (map step_of (new_calls p p'))))
       \<and> (res = Inl (napi_throw_error (Some ''errno'') ''socket() failed'') \<longrightarrow>
            map step_of (new_calls p p') = [Socket])
       \<and> (res = Inl (napi_throw_error (Some ''errno'') ''setsockopt(SO_BINDTODEVICE) failed'') \<longrightarrow>
            map step_of (new_calls p p') = [Socket, Bind, Close])
       \<and> (res = Inl (napi_throw_error None ''inet_pton() failed: invalid IP address'') \<longrightarrow>
            map step_of (new_calls p p') = [Socket, Bind, NoDelay, Parse, Close])
       \<and> (res = Inl (napi_throw_error (Some ''errno'') ''connect() failed'') \<longrightarrow>
            map step_of (new_calls p p') = [Socket, Bind, NoDelay, Parse, TcpConnect, Close])
       \<and> (isl (get_args env cb) \<longrightarrow> map step_of (new_calls p p') = [])
       \<and> (get_args env cb = Inr (iface, ip, port) \<and> socket_reply os = Some e1 \<longrightarrow>
            map step_of (new_calls p p') = [Socket]
          \<and> res = Inl (napi_throw_error (Some ''errno'') ''socket() failed''))
       \<and> (get_args env cb = Inr (iface, ip, port) \<and> socket_reply os = None
            \<and> bindtodevice_reply os (c_str iface) = Some e2 \<longrightarrow>
            map step_of (new_calls p p') = [Socket, Bind, Close]
          \<and> res = Inl (napi_throw_error (Some ''errno'') ''setsockopt(SO_BINDTODEVICE) failed''))
       \<and> (get_args env cb = Inr (iface, ip, port) \<and> socket_reply os = None
            \<and> bindtodevice_reply os (c_str iface) = None \<and> inet_pton4 (c_str ip) = None \<longrightarrow>
            map step_of (new_calls p p') = [Socket, Bind, NoDelay, Parse, Close]
          \<and> res = Inl (napi_throw_error None ''inet_pton() failed: invalid IP address''))
       \<and> (get_args env cb = Inr (iface, ip, port) \<and> socket_reply os = None
            \<and> bindtodevice_reply os (c_str iface) = None \<and> inet_pton4 (c_str ip) = Some addr
            \<and> connect_reply os (sockaddr_of port addr) = Some e3 \<longrightarrow>
            map step_of (new_calls p p') = [Socket, Bind, NoDelay, Parse, TcpConnect, Close]
          \<and> res = Inl (napi_throw_error (Some ''errno'') ''connect() failed''))
       \<and> (get_args env cb = Inr (iface, ip, port) \<and> socket_reply os = None
            \<and> bindtodevice_reply os (c_str iface) = None \<and> inet_pton4 (c_str ip) = Some addr
            \<and> connect_reply os (sockaddr_of port addr) = None \<longrightarrow>
            filter (\<lambda>s. s \<noteq> Close) (map step_of (new_calls p p'))
              = [Socket, Bind, NoDelay, Parse, TcpConnect])"
proof -
  from run have r: "fst (Connect env os cb p) = res" and p': "snd (Connect env os cb p) = p'"
    by simp_all
  note st = Connect_steps [of p env os cb, unfolded r p']
  have m: "map step_of (new_calls p p') \<in>
           {[], [Socket], [Socket, Bind, Close], [Socket, Bind, NoDelay, Parse, Close],
            [Socket, Bind, NoDelay, Parse, TcpConnect, Close],
            [Socket, Bind, NoDelay, Parse, TcpConnect]}"
    unfolding st by (simp split: sum.split)
  have s1: "res = Inl (napi_throw_error (Some ''errno'') ''socket() failed'') \<longrightarrow>
            map step_of (new_calls p p') = [Socket]"
    unfolding st by (simp add: napi_throw_error_def)
  have s2: "res = Inl (napi_throw_error (Some ''errno'') ''setsockopt(SO_BINDTODEVICE) failed'') \<longrightarrow>
            map step_of (new_calls p p') = [Socket, Bind, Close]"
    unfolding st by (simp add: napi_throw_error_def)
  have s3: "res = Inl (napi_throw_error None ''inet_pton() failed: invalid IP address'') \<longrightarrow>
            map step_of (new_calls p p') = [Socket, Bind, NoDelay, Parse, Close]"
    unfolding st by (simp add: napi_throw_error_def)
  have s4: "res = Inl (napi_throw_error (Some ''errno'') ''connect() failed'') \<longrightarrow>
            map step_of (new_calls p p') = [Socket, Bind, NoDelay, Parse, TcpConnect, Close]"
    unfolding st by (simp add: napi_throw_error_def)
  have a0: "isl (get_args env cb) \<longrightarrow> map step_of (new_calls p p') = []"
  proof
    assume "isl (get_args env cb)"
    then obtain e where "get_args env cb = Inl e" by (cases "get_args env cb") auto
    from Connect_args_fail [OF this, of os p] run show "map step_of (new_calls p p') = []"
      by (auto simp: new_calls_same)
  qed
  have a1: "get_args env cb = Inr (iface, ip, port) \<and> socket_reply os = Some e1 \<longrightarrow>
            map step_of (new_calls p p') = [Socket]
          \<and> res = Inl (napi_throw_error (Some ''errno'') ''socket() failed'')"
  proof
    assume h: "get_args env cb = Inr (iface, ip, port) \<and> socket_reply os = Some e1"
    then have "Connect env os cb p = dial env os iface ip port p" by (simp add: Connect_args_ok)
    with run h dial_socket_fails [of os e1 env iface ip port p]
    show "map step_of (new_calls p p') = [Socket]
          \<and> res = Inl (napi_throw_error (Some ''errno'') ''socket() failed'')"
      by (auto simp: new_calls_append)
  qed
  have a2: "get_args env cb = Inr (iface, ip, port) \<and> socket_reply os = None
            \<and> bindtodevice_reply os (c_str iface) = Some e2 \<longrightarrow>
            map step_of (new_calls p p') = [Socket, Bind, Close]
          \<and> res = Inl (napi_throw_error (Some ''errno'') ''setsockopt(SO_BINDTODEVICE) failed'')"
  proof
    assume h: "get_args env cb = Inr (iface, ip, port) \<and> socket_reply os = None
            \<and> bindtodevice_reply os (c_str iface) = Some e2"
    then have "Connect env os cb p = dial env os iface ip port p" by (simp add: Connect_args_ok)
    with run h dial_bind_fails [of os iface e2 env ip port p]
    show "map step_of (new_calls p p') = [Socket, Bind, Close]
          \<and> res = Inl (napi_throw_error (Some ''errno'') ''setsockopt(SO_BINDTODEVICE) failed'')"
      by (auto simp: new_calls_append)
  qed
  have a3: "get_args env cb = Inr (iface, ip, port) \<and> socket_reply os = None
            \<and> bindtodevice_reply os (c_str iface) = None \<and> inet_pton4 (c_str ip) = None \<longrightarrow>
            map step_of (new_calls p p') = [Socket, Bind, NoDelay, Parse, Close]
          \<and> res = Inl (napi_throw_error None ''inet_pton() failed: invalid IP address'')"
  proof
    assume h: "get_args env cb = Inr (iface, ip, port) \<and> socket_reply os = None
            \<and> bindtodevice_reply os (c_str iface) = None \<and> inet_pton4 (c_str ip) = None"
    then have "Connect env os cb p = dial env os iface ip port p" by (simp add: Connect_args_ok)
    with run h dial_parse_fails [of os iface ip env port p]
    show "map step_of (new_calls p p') = [Socket, Bind, NoDelay, Parse, Close]
          \<and> res = Inl (napi_throw_error None ''inet_pton() failed: invalid IP address'')"
      by (auto simp: new_calls_append)
  qed
  have a4: "get_args env cb = Inr (iface, ip, port) \<and> socket_reply os = None
            \<and> bindtodevice_reply os (c_str iface) = None \<and> inet_pton4 (c_str ip) = Some addr
            \<and> connect_reply os (sockaddr_of port addr) = Some e3 \<longrightarrow>
            map step_of (new_calls p p') = [Socket, Bind, NoDelay, Parse, TcpConnect, Close]
          \<and> res = Inl (napi_throw_error (Some ''errno'') ''connect() failed'')"
  proof
    assume h: "get_args env cb = Inr (iface, ip, port) \<and> socket_reply os = None
            \<and> bindtodevice_reply os (c_str iface) = None \<and> inet_pton4 (c_str ip) = Some addr
            \<and> connect_reply os (sockaddr_of port addr) = Some e3"
    then have "Connect env os cb p = dial env os iface ip port p" by (simp add: Connect_args_ok)
    with run h dial_connect_fails [of os iface ip addr port e3 env p]
    show "map step_of (new_calls p p') = [Socket, Bind, NoDelay, Parse, TcpConnect, Close]
          \<and> res = Inl (napi_throw_error (Some ''errno'') ''connect() failed'')"
      by (auto simp: new_calls_append)
  qed
  have a5: "get_args env cb = Inr (iface, ip, port) \<and> socket_reply os = None
            \<and> bindtodevice_reply os (c_str iface) = None \<and> inet_pton4 (c_str ip) = Some addr
            \<and> connect_reply os (sockaddr_of port addr) = None \<longrightarrow>
            filter (\<lambda>s. s \<noteq> Close) (map step_of (new_calls p p'))
              = [Socket, Bind, NoDelay, Parse, TcpConnect]"
  proof
    assume h: "get_args env cb = Inr (iface, ip, port) \<and> socket_reply os = None
            \<and> bindtodevice_reply os (c_str iface) = None \<and> inet_pton4 (c_str ip) = Some addr
            \<and> connect_reply os (sockaddr_of port addr) = None"
    then have C: "Connect env os cb p = dial env os iface ip port p" by (simp add: Connect_args_ok)
    show "filter (\<lambda>s. s \<noteq> Close) (map step_of (new_calls p p'))
              = [Socket, Bind, NoDelay, Parse, TcpConnect]"
    proof (cases "create_int32_status env = napi_ok")
      case True
      with C run h dial_succeeds [of os iface ip addr port env p] show ?thesis
        by (auto simp: new_calls_append_fds)
    next
      case False
      with C run h dial_create_fails [of os iface ip addr port env p] show ?thesis
        by (auto simp: new_calls_append)
    qed
  qed
  show ?thesis
    by (intro conjI m one_pass_facts [OF m] s1 s2 s3 s4 a0 a1 a2 a3 a4 a5)
qed

theorem connect_is_one_linear_pass_witness:
  "get_args host_env [js ''lo'', js ''127.0.0.1'', JsNumber 80] = Inr (''lo'', ''127.0.0.1'', 80)
   \<and> socket_reply exhausted_os = Some 24
   \<and> map step_of (new_calls host_proc
         (snd (Connect host_env exhausted_os [js ''lo'', js ''127.0.0.1'', JsNumber 80] host_proc)))
       = [Socket]
   \<and> get_args host_env [js ''doesnotexist0'', js ''127.0.0.1'', JsNumber 80]
       = Inr (''doesnotexist0'', ''127.0.0.1'', 80)
   \<and> socket_reply host_os = None
   \<and> bindtodevice_reply host_os (c_str ''doesnotexist0'') = Some 19
   \<and> map step_of (new_calls host_proc
         (snd (Connect host_env host_os [js ''doesnotexist0'', js ''127.0.0.1'', JsNumber 80] host_proc)))
       = [Socket, Bind, Close]
   \<and> bindtodevice_reply host_os (c_str ''lo'') = None
   \<and> inet_pton4 (c_str ''127.0.0.1'') = Some [127, 0, 0, 1]
   \<and> connect_reply host_os (sockaddr_of 80 [127, 0, 0, 1]) = Some 111
   \<and> map step_of (new_calls host_proc
         (snd (Connect host_env host_os [js ''lo'', js ''127.0.0.1'', JsNumber 80] host_proc)))
       = [Socket, Bind, NoDelay, Parse, TcpConnect, Close]
   \<and> fst (Connect host_env host_os [js ''lo'', js ''127.0.0.1'', JsNumber 80] host_proc)
       = Inl (napi_throw_error (Some ''errno'') ''connect() failed'')"
proof -
  have h1: "get_args host_env [js ''lo'', js ''127.0.0.1'', JsNumber 80] = Inr (''lo'', ''127.0.0.1'', 80)
      \<and> socket_reply exhausted_os = Some 24"
    by (intro conjI args_lo_80 exhausted_socket)
  have h2: "get_args host_env [js ''doesnotexist0'', js ''127.0.0.1'', JsNumber 80]
        = Inr (''doesnotexist0'', ''127.0.0.1'', 80)
      \<and> socket_reply host_os = None
      \<and> bindtodevice_reply host_os (c_str ''doesnotexist0'') = Some 19"
    by (intro conjI args_missing_device host_socket host_no_such_device)
  have h4: "get_args host_env [js ''lo'', js ''127.0.0.1'', JsNumber 80] = Inr (''lo'', ''127.0.0.1'', 80)
      \<and> socket_reply host_os = None
      \<and> bindtodevice_reply host_os (c_str ''lo'') = None
      \<and> inet_pton4 (c_str ''127.0.0.1'') = Some [127, 0, 0, 1]
      \<and> connect_reply host_os (sockaddr_of 80 [127, 0, 0, 1]) = Some 111"
    by (intro conjI args_lo_80 host_socket host_lo parse_loopback host_refuses_80)
  note r1 = connect_is_one_linear_pass [OF surjective_pairing,
      where env = host_env and os = exhausted_os and p = host_proc
        and cb = "[js ''lo'', js ''127.0.0.1'', JsNumber 80]"
        and iface = "''lo''" and ip = "''127.0.0.1''" and port = 80 and ?e1.0 = 24,
      THEN conjunct2, THEN conjunct2, THEN conjunct2, THEN conjunct2, THEN conjunct2, THEN conjunct2, THEN conjunct2, THEN conjunct2, THEN conjunct2, THEN conjunct1, THEN mp, OF h1, THEN conjunct1]
  note r2 = connect_is_one_linear_pass [OF surjective_pairing,
      where env = host_env and os = host_os and p = host_proc
        and cb = "[js ''doesnotexist0'', js ''127.0.0.1'', JsNumber 80]"
        and iface = "''doesnotexist0''" and ip = "''127.0.0.1''" and port = 80 and ?e2.0 = 19,
      THEN conjunct2, THEN conjunct2, THEN conjunct2, THEN conjunct2, THEN conjunct2, THEN conjunct2, THEN conjunct2, THEN conjunct2, THEN conjunct2, THEN conjunct2, THEN conjunct1, THEN mp, OF h2, THEN conjunct1]
  note r4 = connect_is_one_linear_pass [OF surjective_pairing,
      where env = host_env and os = host_os and p = host_proc
        and cb = "[js ''lo'', js ''127.0.0.1'', JsNumber 80]"
        and iface = "''lo''" and ip = "''127.0.0.1''" and port = 80
        and addr = "[127, 0, 0, 1]" and ?e3.0 = 111,
      THEN conjunct2, THEN conjunct2, THEN conjunct2, THEN conjunct2, THEN conjunct2, THEN conjunct2, THEN conjunct2, THEN conjunct2, THEN conjunct2, THEN conjunct2, THEN conjunct2, THEN conjunct2, THEN conjunct1, THEN mp, OF h4]
  show ?thesis
    by (intro conjI args_lo_80 exhausted_socket r1 args_missing_device host_socket
        host_no_such_device r2 host_lo parse_loopback host_refuses_80
        r4 [THEN conjunct1] r4 [THEN conjunct2])
qed



text \<open>
  C9 (port wrap-around). The port argument is any integer \<open>n\<close>; nothing checks its range.
  When the arguments were read and \<open>socket()\<close>, the interface binding and the address
  parsing succeeded, \<open>Connect\<close> issues exactly one \<open>connect\<close>, to the parsed address and
  to the port \<open>n mod 65536\<close>; when that connect succeeds (and the result value can be
  made) the call succeeds, whatever \<open>n\<close> is.
\<close>

theorem port_is_reduced_modulo_65536:
  assumes args: "get_args env cb = Inr (iface, ip, port)"
    and num: "cb ! 2 = JsNumber n"
    and sock: "socket_reply os = None"
    and bind: "bindtodevice_reply os (c_str iface) = None"
    and parse: "inet_pton4 (c_str ip) = Some addr"
    and run: "Connect env os cb p = (res, p')"
  shows "filter (\<lambda>c. step_of c = TcpConnect) (new_calls p p')
           = [Call_connect (new_fd p) (sockaddr_of port addr)]
       \<and> sin_addr (sockaddr_of port addr) = addr
       \<and> ntohs (sin_port (sockaddr_of port addr)) = nat (n mod 65536)
       \<and> (connect_reply os (sockaddr_of port addr) = None \<and> create_int32_status env = napi_ok \<longrightarrow>
            res = Inr (JsNumber (new_fd p)))"
proof -
  from get_args_Inr [OF args] num have port: "port = word_of_int n" by auto
  have tp: "ntohs (sin_port (sockaddr_of port addr)) = nat (n mod 65536)"
    unfolding port by (rule target_port)
  have ad: "sin_addr (sockaddr_of port addr) = addr" by (simp add: sockaddr_of_def)
  from run have d: "dial env os iface ip port p = (res, p')"
    by (simp add: Connect_args_ok [OF args])
  have calls: "filter (\<lambda>c. step_of c = TcpConnect) (new_calls p p')
           = [Call_connect (new_fd p) (sockaddr_of port addr)]"
  proof (cases "connect_reply os (sockaddr_of port addr)")
    case (Some e)
    from d dial_connect_fails [OF sock bind parse Some, of env p] show ?thesis
      by (auto simp: new_calls_append)
  next
    case None
    show ?thesis
    proof (cases "create_int32_status env = napi_ok")
      case True
      from d dial_succeeds [OF sock bind parse None True, of p] show ?thesis
        by (auto simp: new_calls_append_fds)
    next
      case False
      from d dial_create_fails [OF sock bind parse None False, of p] show ?thesis
        by (auto simp: new_calls_append)
    qed
  qed
  have ok: "connect_reply os (sockaddr_of port addr) = None \<and> create_int32_status env = napi_ok \<longrightarrow>
            res = Inr (JsNumber (new_fd p))"
  proof
    assume "connect_reply os (sockaddr_of port addr) = None \<and> create_int32_status env = napi_ok"
    then have c: "connect_reply os (sockaddr_of port addr) = None"
      and s: "create_int32_status env = napi_ok" by simp_all
    from d dial_succeeds [OF sock bind parse c s, of p] show "res = Inr (JsNumber (new_fd p))"
      by simp
  qed
  show ?thesis by (intro conjI calls ad tp ok)
qed

theorem port_is_reduced_modulo_65536_witness:
  "get_args host_env [js ''lo'', js ''127.0.0.1'', JsNumber 73616]
     = Inr (''lo'', ''127.0.0.1'', word_of_int 73616)
   \<and> [js ''lo'', js ''127.0.0.1'', JsNumber 73616] ! 2 = JsNumber 73616
   \<and> socket_reply host_os = None
   \<and> bindtodevice_reply host_os (c_str ''lo'') = None
   \<and> inet_pton4 (c_str ''127.0.0.1'') = Some [127, 0, 0, 1]
   \<and> connect_reply host_os (sockaddr_of (word_of_int 73616) [127, 0, 0, 1]) = None
   \<and> create_int32_status host_env = napi_ok
   \<and> ntohs (sin_port (sockaddr_of (word_of_int 73616) [127, 0, 0, 1])) = 8080
   \<and> fst (Connect host_env host_os [js ''lo'', js ''127.0.0.1'', JsNumber 73616] host_proc)
       = Inr (JsNumber 3)
   \<and> get_args host_env [js ''lo'', js ''127.0.0.1'', JsNumber (- 1)]
       = Inr (''lo'', ''127.0.0.1'', word_of_int (- 1))
   \<and> [js ''lo'', js ''127.0.0.1'', JsNumber (- 1)] ! 2 = JsNumber (- 1)
   \<and> ntohs (sin_port (sockaddr_of (word_of_int (- 1)) [127, 0, 0, 1])) = 65535"
proof -
  have n: "[js ''lo'', js ''127.0.0.1'', JsNumber 73616] ! 2 = JsNumber 73616" by simp
  have m: "nat (73616 mod 65536) = 8080" by simp
  note r = port_is_reduced_modulo_65536
    [OF args_wrapped_port n host_socket host_lo parse_loopback surjective_pairing, of host_proc,
     unfolded host_new_fd m, THEN conjunct2, THEN conjunct2]
  have both: "connect_reply host_os (sockaddr_of (word_of_int 73616) [127, 0, 0, 1]) = None
      \<and> create_int32_status host_env = napi_ok"
    by (intro conjI host_serves_wrapped host_env_create)
  have n': "[js ''lo'', js ''127.0.0.1'', JsNumber (- 1)] ! 2 = JsNumber (- 1)" by simp
  have m': "nat (- 1 mod 65536) = 65535" by simp
  note r' = port_is_reduced_modulo_65536
    [OF args_negative_port n' host_socket host_lo parse_loopback surjective_pairing, of host_proc,
     unfolded m', THEN conjunct2, THEN conjunct2, THEN conjunct1]
  show ?thesis
    by (intro conjI args_wrapped_port n host_socket host_lo parse_loopback host_serves_wrapped
        host_env_create r [THEN conjunct1] r [THEN conjunct2, THEN mp, OF both]
        args_negative_port n' r')
qed

text \<open>
  C10 (address-string truncation). An address argument of more than 15 characters is
  really cut (the cut string differs from it), and \<open>Connect\<close> does with it what it does
  with its first 15 characters. So when those 15 characters are an IPv4 literal for
  \<open>addr\<close>, and the other arguments are read and \<open>socket()\<close> and the interface binding
  succeed, the call does not end in \<open>InvalidAddress\<close>: what it parses is that prefix, its
  one \<open>connect\<close> goes to \<open>addr\<close>, and it succeeds when that connect does.
\<close>

theorem address_is_cut_to_15_characters:
  assumes a: "cb ! 1 = JsString a" and long: "15 < length a"
  shows "take (INET_ADDRSTRLEN - 1) a \<noteq> a
       \<and> Connect env os cb p = Connect env os (cb[1 := JsString (take (INET_ADDRSTRLEN - 1) a)]) p
       \<and> (get_cb_info_status env = napi_ok \<and> 3 \<le> length cb
            \<and> cb ! 0 = JsString i \<and> cb ! 2 = JsNumber n
            \<and> inet_pton4 (utf8 (take (INET_ADDRSTRLEN - 1) a)) = Some addr
            \<and> socket_reply os = None
            \<and> bindtodevice_reply os (c_str (write_utf8 (IFNAMSIZ - 1) i)) = None \<longrightarrow>
              fst (Connect env os cb p)
                \<noteq> Inl (napi_throw_error None ''inet_pton() failed: invalid IP address'')
            \<and> filter (\<lambda>c. step_of c = Parse) (new_calls p (snd (Connect env os cb p)))
                = [Call_inet_pton (utf8 (take (INET_ADDRSTRLEN - 1) a))]
            \<and> filter (\<lambda>c. step_of c = TcpConnect) (new_calls p (snd (Connect env os cb p)))
                = [Call_connect (new_fd p) (sockaddr_of (word_of_int n) addr)]
            \<and> sin_addr (sockaddr_of (word_of_int n) addr) = addr
            \<and> (connect_reply os (sockaddr_of (word_of_int n) addr) = None
                 \<and> create_int32_status env = napi_ok \<longrightarrow>
                   fst (Connect env os cb p) = Inr (JsNumber (new_fd p))))"
proof (intro conjI impI)
  from long have "length (take (INET_ADDRSTRLEN - 1) a) \<noteq> length a"
    by (simp add: INET_ADDRSTRLEN_def)
  then show "take (INET_ADDRSTRLEN - 1) a \<noteq> a" by auto
next
  from get_args_address_prefix [OF a, of env]
  show "Connect env os cb p = Connect env os (cb[1 := JsString (take (INET_ADDRSTRLEN - 1) a)]) p"
    by (simp add: Connect_def INET_ADDRSTRLEN_def)
next
  assume h: "get_cb_info_status env = napi_ok \<and> 3 \<le> length cb
            \<and> cb ! 0 = JsString i \<and> cb ! 2 = JsNumber n
            \<and> inet_pton4 (utf8 (take (INET_ADDRSTRLEN - 1) a)) = Some addr
            \<and> socket_reply os = None
            \<and> bindtodevice_reply os (c_str (write_utf8 (IFNAMSIZ - 1) i)) = None"
  then have valid: "inet_pton4 (utf8 (take 15 a)) = Some addr"
    and sock: "socket_reply os = None"
    and bind: "bindtodevice_reply os (c_str (write_utf8 15 i)) = None"
    by (simp_all add: INET_ADDRSTRLEN_def IFNAMSIZ_def)
  note buf = buffer_of_valid_prefix [OF valid]
  from h a have args: "get_args env cb = Inr (write_utf8 15 i, utf8 (take 15 a), word_of_int n)"
    by (simp add: get_args_strings buf(1))
  from valid have parse: "inet_pton4 (c_str (utf8 (take 15 a))) = Some addr"
    by (simp only: buf(2))
  note C = Connect_args_ok [OF args, of os p]
  note d = dial_after_parse [OF sock bind parse,
      where env = env and port = "word_of_int n" and p = p, folded C]
  have l: "INET_ADDRSTRLEN - 1 = 15" by (simp add: INET_ADDRSTRLEN_def)
  from d(1) show "fst (Connect env os cb p)
      \<noteq> Inl (napi_throw_error None ''inet_pton() failed: invalid IP address'')" .
  from d(2) show "filter (\<lambda>c. step_of c = Parse) (new_calls p (snd (Connect env os cb p)))
      = [Call_inet_pton (utf8 (take (INET_ADDRSTRLEN - 1) a))]"
    by (simp only: buf(2) l)
  from d(3) show "filter (\<lambda>c. step_of c = TcpConnect) (new_calls p (snd (Connect env os cb p)))
      = [Call_connect (new_fd p) (sockaddr_of (word_of_int n) addr)]" .
  show "sin_addr (sockaddr_of (word_of_int n) addr) = addr" by (simp add: sockaddr_of_def)
  assume "connect_reply os (sockaddr_of (word_of_int n) addr) = None
      \<and> create_int32_status env = napi_ok"
  with d(4) show "fst (Connect env os cb p) = Inr (JsNumber (new_fd p))" by (rule mp)
qed

theorem address_is_cut_to_15_characters_witness:
  "[js ''lo'', js ''192.168.100.1001'', JsNumber 80] ! 1 = JsString (map of_char ''192.168.100.1001'')
   \<and> 15 < length (map of_char ''192.168.100.1001'' :: nat list)
   \<and> get_cb_info_status host_env = napi_ok
   \<and> 3 \<le> length [js ''lo'', js ''192.168.100.1001'', JsNumber 80]
   \<and> [js ''lo'', js ''192.168.100.1001'', JsNumber 80] ! 0 = JsString (map of_char ''lo'')
   \<and> [js ''lo'', js ''192.168.100.1001'', JsNumber 80] ! 2 = JsNumber 80
   \<and> inet_pton4 (utf8 (take (INET_ADDRSTRLEN - 1) (map of_char ''192.168.100.1001'')))
       = Some [192, 168, 100, 100]
   \<and> socket_reply lan_os = None
   \<and> bindtodevice_reply lan_os (c_str (write_utf8 (IFNAMSIZ - 1) (map of_char ''lo''))) = None
   \<and> connect_reply lan_os (sockaddr_of (word_of_int 80) [192, 168, 100, 100]) = None
   \<and> create_int32_status host_env = napi_ok
   \<and> filter (\<lambda>c. step_of c = TcpConnect) (new_calls host_proc
         (snd (Connect host_env lan_os [js ''lo'', js ''192.168.100.1001'', JsNumber 80] host_proc)))
       = [Call_connect 3 (sockaddr_of (word_of_int 80) [192, 168, 100, 100])]
   \<and> fst (Connect host_env lan_os [js ''lo'', js ''192.168.100.1001'', JsNumber 80] host_proc)
       = Inr (JsNumber 3)"
proof -
  have a: "[js ''lo'', js ''192.168.100.1001'', JsNumber 80] ! 1
      = JsString (map of_char ''192.168.100.1001'')" by (simp add: js_def)
  have l: "15 < length (map of_char ''192.168.100.1001'' :: nat list)" by simp
  have l3: "3 \<le> length [js ''lo'', js ''192.168.100.1001'', JsNumber 80]" by simp
  have i: "[js ''lo'', js ''192.168.100.1001'', JsNumber 80] ! 0 = JsString (map of_char ''lo'')"
    by (simp add: js_def)
  have n: "[js ''lo'', js ''192.168.100.1001'', JsNumber 80] ! 2 = JsNumber 80" by simp
  have h: "get_cb_info_status host_env = napi_ok
       \<and> 3 \<le> length [js ''lo'', js ''192.168.100.1001'', JsNumber 80]
       \<and> [js ''lo'', js ''192.168.100.1001'', JsNumber 80] ! 0 = JsString (map of_char ''lo'')
       \<and> [js ''lo'', js ''192.168.100.1001'', JsNumber 80] ! 2 = JsNumber 80
       \<and> inet_pton4 (utf8 (take (INET_ADDRSTRLEN - 1) (map of_char ''192.168.100.1001'')))
           = Some [192, 168, 100, 100]
       \<and> socket_reply lan_os = None
       \<and> bindtodevice_reply lan_os (c_str (write_utf8 (IFNAMSIZ - 1) (map of_char ''lo''))) = None"
    by (intro conjI host_env_cb l3 i n overlong_prefix_valid lan_replies(1) lan_replies(2))
  have both: "connect_reply lan_os (sockaddr_of (word_of_int 80) [192, 168, 100, 100]) = None
       \<and> create_int32_status host_env = napi_ok"
    by (intro conjI lan_replies(3) host_env_create)
  note r = address_is_cut_to_15_characters [OF a l,
      where env = host_env and os = lan_os and p = host_proc,
      THEN conjunct2, THEN conjunct2, THEN mp, OF h, unfolded host_new_fd,
      THEN conjunct2, THEN conjunct2]
  show ?thesis
    by (intro conjI a l host_env_cb l3 i n overlong_prefix_valid lan_replies host_env_create
        r [THEN conjunct1] r [THEN conjunct2, THEN conjunct2, THEN mp, OF both])
qed

end
